theory Spec2Isabelle
  imports Complex_Main "HOL-Library.Char_ord" "HOL-Library.List_Lexorder"
begin

section \<open>Values shared by the scripts\<close>

text \<open>
  The scripts are Python. Floating-point numbers are modelled by \<^typ>\<open>real\<close>: rounding,
  infinities and NaN are outside the model. Strings are ASCII, so that \<^const>\<open>length\<close>
  is Python's \<^verbatim>\<open>len\<close> and the lexicographic order on \<^typ>\<open>string\<close> is the order
  \<^verbatim>\<open>sorted\<close> uses.
\<close>

text \<open>What \<^verbatim>\<open>json.loads\<close> returns. An object keeps its keys in order; a lookup is \<^const>\<open>map_of\<close>.\<close>

datatype json =
    JNull
  | JBool bool
  | JNum real
  | JStr string
  | JList "json list"
  | JObj "(string \<times> json) list"

text \<open>The exceptions the modelled code can raise.\<close>

datatype error =
    FileNotFoundError
  | JSONDecodeError
  | KeyError string
  | TypeError
  | AttributeError
  | ValueError
  | IndexError
  | StatisticsError
  | CalledProcessError int

definition bindE :: "error + 'a \<Rightarrow> ('a \<Rightarrow> error + 'b) \<Rightarrow> error + 'b" where
  "bindE m f = (case m of Inl e \<Rightarrow> Inl e | Inr x \<Rightarrow> f x)"

section \<open>sprite\_bench.py: statistics\<close>

text \<open>
  \<^verbatim>\<open>statistics.mean\<close> and \<^verbatim>\<open>statistics.pstdev\<close> of the standard library: both raise
  \<^verbatim>\<open>StatisticsError\<close> on an empty sequence; \<^verbatim>\<open>pstdev\<close> is the square root of the mean
  of the squared deviations from the mean (division by \<open>n\<close>, where \<^verbatim>\<open>stdev\<close> divides by \<open>n - 1\<close>).
\<close>

definition stats_mean :: "real list \<Rightarrow> error + real" where
  "stats_mean xs = (if xs = [] then Inl StatisticsError else Inr (sum_list xs / real (length xs)))"

definition stats_pstdev :: "real list \<Rightarrow> error + real" where
  "stats_pstdev xs =
     (if xs = [] then Inl StatisticsError
      else let c = sum_list xs / real (length xs)
           in Inr (sqrt (sum_list (map (\<lambda>x. (x - c)\<^sup>2) xs) / real (length xs))))"

section \<open>sprite\_bench.py: the baseline loader\<close>

text \<open>
  A file system maps a path to what \<^verbatim>\<open>json.loads\<close> makes of the file's text: \<open>None\<close> when
  the text is not JSON.
\<close>

type_synonym filesystem = "string \<rightharpoonup> json option"

text \<open>\<^verbatim>\<open>for entry in v\<close>: a list yields its items, a dict its keys, a string its characters.\<close>

fun py_iter :: "json \<Rightarrow> error + json list" where
  "py_iter (JList es) = Inr es"
| "py_iter (JObj kvs) = Inr (map (\<lambda>kv. JStr (fst kv)) kvs)"
| "py_iter (JStr s) = Inr (map (\<lambda>c. JStr [c]) s)"
| "py_iter _ = Inl TypeError"

text \<open>\<^verbatim>\<open>v[key]\<close> with a string key: only a dict accepts it.\<close>

fun py_getitem :: "json \<Rightarrow> string \<Rightarrow> error + json" where
  "py_getitem (JObj kvs) k = (case map_of kvs k of None \<Rightarrow> Inl (KeyError k) | Some v \<Rightarrow> Inr v)"
| "py_getitem _ k = Inl TypeError"

text \<open>\<^verbatim>\<open>v.get(key, default)\<close>: only a dict has the method.\<close>

fun py_get :: "json \<Rightarrow> string \<Rightarrow> json \<Rightarrow> error + json" where
  "py_get (JObj kvs) k d = (case map_of kvs k of None \<Rightarrow> Inr d | Some v \<Rightarrow> Inr v)"
| "py_get _ k d = Inl AttributeError"

text \<open>A list or a dict cannot be a dict key.\<close>

fun hashable :: "json \<Rightarrow> bool" where
  "hashable (JList _) = False"
| "hashable (JObj _) = False"
| "hashable _ = True"

text \<open>
  The dict comprehension of \<^verbatim>\<open>load_baseline\<close>, entry by entry: the key expression, then the
  value expression, then the store. A later entry overwrites an earlier one with the same label.
\<close>

fun baseline_mapping :: "json list \<Rightarrow> (json \<rightharpoonup> json) \<Rightarrow> error + (json \<rightharpoonup> json)" where
  "baseline_mapping [] m = Inr m"
| "baseline_mapping (entry # es) m =
     bindE (py_getitem entry ''label'') (\<lambda>l.
     bindE (py_get entry ''mean_ms'' (JNum 0)) (\<lambda>v.
     if hashable l then baseline_mapping es (m(l \<mapsto> v)) else Inl TypeError))"

record baseline_meta =
  bm_path :: string
  bm_label :: json
  bm_commit :: json
  bm_timestamp :: json

definition load_baseline :: "filesystem \<Rightarrow> string \<Rightarrow> error + ((json \<rightharpoonup> json) \<times> baseline_meta)" where
  "load_baseline fs path =
     (case fs path of
        None \<Rightarrow> Inl FileNotFoundError
      | Some None \<Rightarrow> Inl JSONDecodeError
      | Some (Some payload) \<Rightarrow>
          bindE (py_get payload ''systems'' (JList [])) (\<lambda>systems.
          bindE (py_iter systems) (\<lambda>entries.
          bindE (baseline_mapping entries Map.empty) (\<lambda>mapping.
          bindE (py_get payload ''label'' JNull) (\<lambda>l.
          bindE (py_get payload ''commit'' JNull) (\<lambda>c.
          bindE (py_get payload ''timestamp'' JNull) (\<lambda>t.
          Inr (mapping, \<lparr>bm_path = path, bm_label = l, bm_commit = c, bm_timestamp = t\<rparr>))))))))"

section \<open>sprite\_bench.py: the harness report and the run aggregation\<close>

text \<open>
  One case entry of the harness report, for reports whose present keys hold values of the
  expected type: a key read with \<^verbatim>\<open>entry[...]\<close> is \<open>None\<close> when absent (a \<^verbatim>\<open>KeyError\<close>), a
  key read with \<^verbatim>\<open>entry.get(...)\<close> is Python's \<^verbatim>\<open>None\<close> when absent. \<open>e_mean_step_ms\<close> is
  \<^verbatim>\<open>entry["summary"]["mean_step_ms"]\<close>.
\<close>

record report_entry =
  e_label :: "string option"
  e_units :: json
  e_count :: json
  e_budget_ms :: "real option"
  e_steps :: json
  e_samples :: json
  e_mean_step_ms :: "real option"

record slot =
  sl_units :: json
  sl_count :: json
  sl_budget :: "real option"
  sl_steps :: json
  sl_samples :: json
  sl_runs :: "real list"

text \<open>The dict \<^verbatim>\<open>cases\<close>, in insertion order.\<close>

type_synonym cases = "(string \<times> slot) list"

definition setdefault :: "cases \<Rightarrow> string \<Rightarrow> slot \<Rightarrow> cases" where
  "setdefault cs l d = (case map_of cs l of None \<Rightarrow> cs @ [(l, d)] | Some _ \<Rightarrow> cs)"

definition append_run :: "cases \<Rightarrow> string \<Rightarrow> real \<Rightarrow> cases" where
  "append_run cs l v = map (\<lambda>(k, s). if k = l then (k, s\<lparr>sl_runs := sl_runs s @ [v]\<rparr>) else (k, s)) cs"

text \<open>The body of \<^verbatim>\<open>for entry in report_entries\<close>.\<close>

definition observe_entry :: "cases \<Rightarrow> report_entry \<Rightarrow> error + cases" where
  "observe_entry cs entry =
     (case e_label entry of
        None \<Rightarrow> Inl (KeyError ''label'')
      | Some label \<Rightarrow>
          (let cs' = setdefault cs label
                 \<lparr>sl_units = e_units entry, sl_count = e_count entry, sl_budget = e_budget_ms entry,
                  sl_steps = e_steps entry, sl_samples = e_samples entry, sl_runs = []\<rparr>
           in case e_mean_step_ms entry of
                None \<Rightarrow> Inl (KeyError ''mean_step_ms'')
              | Some v \<Rightarrow> Inr (append_run cs' label v)))"

fun observe :: "cases \<Rightarrow> report_entry list \<Rightarrow> error + cases" where
  "observe cs [] = Inr cs"
| "observe cs (entry # es) = bindE (observe_entry cs entry) (\<lambda>cs'. observe cs' es)"

text \<open>
  What one trial leaves behind: the exit status of the harness, and the report file as
  \<^verbatim>\<open>read_report\<close> finds it (\<open>None\<close>: no file; \<open>Some None\<close>: not JSON).
\<close>

record report =
  rp_metadata :: "(string \<times> json) list"
  rp_cases :: "report_entry list"

record trial =
  t_returncode :: int
  t_report :: "report option option"

text \<open>\<^verbatim>\<open>subprocess.run(..., check=True)\<close> raises on a non-zero exit status.\<close>

definition run_once :: "trial \<Rightarrow> error + unit" where
  "run_once t = (if t_returncode t = 0 then Inr () else Inl (CalledProcessError (t_returncode t)))"

definition read_report :: "trial \<Rightarrow> error + ((string \<times> json) list \<times> report_entry list)" where
  "read_report t =
     (case t_report t of
        None \<Rightarrow> Inl FileNotFoundError
      | Some None \<Rightarrow> Inl JSONDecodeError
      | Some (Some r) \<Rightarrow> Inr (rp_metadata r, rp_cases r))"

text \<open>The loop \<^verbatim>\<open>for idx in range(1, args.runs + 1)\<close> over the state \<open>(cases, bench_meta)\<close>.\<close>

fun run_trials ::
  "(int \<Rightarrow> trial) \<Rightarrow> int list \<Rightarrow> cases \<times> (string \<times> json) list option
     \<Rightarrow> error + (cases \<times> (string \<times> json) list option)" where
  "run_trials harness [] st = Inr st"
| "run_trials harness (idx # idxs) st =
     bindE (run_once (harness idx)) (\<lambda>_.
     bindE (read_report (harness idx)) (\<lambda>(meta, report_entries).
     let bench_meta = (if meta \<noteq> [] \<and> snd st = None then Some meta else snd st)
     in bindE (observe (fst st) report_entries) (\<lambda>cs'.
        run_trials harness idxs (cs', bench_meta))))"

section \<open>sprite\_bench.py: the table\<close>

definition rjust :: "nat \<Rightarrow> string \<Rightarrow> string" where
  "rjust w s = replicate (w - length s) (CHR '' '') @ s"

fun join :: "string \<Rightarrow> string list \<Rightarrow> string" where
  "join sep [] = []"
| "join sep [x] = x"
| "join sep (x # y # ys) = x @ sep @ join sep (y # ys)"

text \<open>
  \<^verbatim>\<open>for idx, cell in enumerate(row): widths[idx] = max(widths[idx], len(cell))\<close>:
  a row longer than \<^verbatim>\<open>widths\<close> raises \<^verbatim>\<open>IndexError\<close>.
\<close>

fun widen :: "nat list \<Rightarrow> string list \<Rightarrow> error + nat list" where
  "widen ws [] = Inr ws"
| "widen [] (cell # cells) = Inl IndexError"
| "widen (w # ws) (cell # cells) = bindE (widen ws cells) (\<lambda>ws'. Inr (max w (length cell) # ws'))"

fun column_widths :: "nat list \<Rightarrow> string list list \<Rightarrow> error + nat list" where
  "column_widths ws [] = Inr ws"
| "column_widths ws (row # rows) = bindE (widen ws row) (\<lambda>ws'. column_widths ws' rows)"

text \<open>The cells of one row, each right-justified to the width at its own index.\<close>

definition padded :: "nat list \<Rightarrow> string list \<Rightarrow> string list" where
  "padded widths row = map (\<lambda>(cell, w). rjust w cell) (zip row widths)"

definition format_table :: "string list list \<Rightarrow> error + string" where
  "format_table rows =
     (if rows = [] then Inr []
      else bindE (column_widths (replicate (length (hd rows)) 0) rows) (\<lambda>widths.
           Inr (join [CHR 0x0A] (map (\<lambda>row. join ''  '' (padded widths row)) rows))))"

section \<open>sprite\_bench.py: main\<close>

text \<open>\<^verbatim>\<open>str(i)\<close> of a non-negative integer, for the header cells \<^verbatim>\<open>f"run{i}"\<close>.\<close>

function py_str_nat :: "nat \<Rightarrow> string" where
  "py_str_nat n =
     (if n < 10 then [''0123456789'' ! n]
      else py_str_nat (n div 10) @ [''0123456789'' ! (n mod 10)])"
  by pat_completeness auto
termination
  by (relation "measure id") auto

definition py_str_int :: "int \<Rightarrow> string" where
  "py_str_int i = (if i < 0 then CHR ''-'' # py_str_nat (nat (- i)) else py_str_nat (nat i))"

text \<open>
  The arguments \<^verbatim>\<open>main\<close> reads, and what it takes from its environment: the command
  \<^verbatim>\<open>build_command\<close> returns, the \<^verbatim>\<open>ANIMATION_PROFILE_\<close> variables in the order of their
  sorted keys, the timestamp, and what \<^verbatim>\<open>git_rev\<close> returns or raises.
\<close>

record args =
  a_label :: string
  a_runs :: int
  a_baseline :: string

record run_context =
  rc_cmd :: "string list"
  rc_env :: "(string \<times> string) list"
  rc_timestamp :: string
  rc_git_rev :: "error + string"

text \<open>
  The two float formats are parameters of the model: \<open>fmt3\<close> is \<^verbatim>\<open>f"{v:.3f}"\<close> and \<open>fmt3s\<close> is
  \<^verbatim>\<open>f"{v:+.3f}"\<close>.
\<close>

record formats =
  fmt3 :: "real \<Rightarrow> string"
  fmt3s :: "real \<Rightarrow> string"

record summary =
  s_label :: string
  s_units :: json
  s_count :: json
  s_budget_ms :: real
  s_runs :: "real list"
  s_mean_ms :: real
  s_stddev_ms :: real
  s_delta_vs_baseline_ms :: "real option"

text \<open>
  Lines 197 to 205: the cell and the payload value of the delta. \<^verbatim>\<open>baseline_map.get(label)\<close> is
  \<^verbatim>\<open>None\<close> for a label the map lacks, and for one it maps to \<^verbatim>\<open>null\<close>; the subtraction
  accepts a number or a boolean.
\<close>

definition delta_of ::
  "formats \<Rightarrow> bool \<Rightarrow> (json \<rightharpoonup> json) \<Rightarrow> string \<Rightarrow> real \<Rightarrow> error + (string \<times> real option)" where
  "delta_of f has_baseline baseline_map label mean_val =
     (if has_baseline then
        (case baseline_map (JStr label) of
           None \<Rightarrow> Inr (''n/a'', None)
         | Some JNull \<Rightarrow> Inr (''n/a'', None)
         | Some (JNum b) \<Rightarrow> Inr (fmt3s f (mean_val - b), Some (mean_val - b))
         | Some (JBool b) \<Rightarrow> Inr (fmt3s f (mean_val - of_bool b), Some (mean_val - of_bool b))
         | Some _ \<Rightarrow> Inl TypeError)
      else Inr ([], None))"

text \<open>The body of \<^verbatim>\<open>for label in sorted(cases.keys())\<close>: the table row and the payload entry.\<close>

definition summarize ::
  "formats \<Rightarrow> bool \<Rightarrow> (json \<rightharpoonup> json) \<Rightarrow> string \<Rightarrow> slot \<Rightarrow> error + (string list \<times> summary)" where
  "summarize f has_baseline baseline_map label slot =
     (let values = sl_runs slot in
      bindE (stats_mean values) (\<lambda>mean_val.
      bindE (if length values > 1 then stats_pstdev values else Inr 0) (\<lambda>std_val.
      bindE (delta_of f has_baseline baseline_map label mean_val) (\<lambda>(delta_cell, delta_payload).
      case sl_budget slot of
        None \<Rightarrow> Inl TypeError
      | Some budget \<Rightarrow>
          Inr ([label] @ map (fmt3 f) values @ [fmt3 f mean_val, fmt3 f std_val]
                 @ (if has_baseline then [if delta_cell \<noteq> [] then delta_cell else ''n/a''] else [])
                 @ [fmt3 f budget],
               \<lparr>s_label = label, s_units = sl_units slot, s_count = sl_count slot,
                s_budget_ms = budget, s_runs = values, s_mean_ms = mean_val,
                s_stddev_ms = std_val, s_delta_vs_baseline_ms = delta_payload\<rparr>)))))"

fun summarize_all ::
  "formats \<Rightarrow> bool \<Rightarrow> (json \<rightharpoonup> json) \<Rightarrow> cases \<Rightarrow> string list
     \<Rightarrow> error + (string list list \<times> summary list)" where
  "summarize_all f hb bm cs [] = Inr ([], [])"
| "summarize_all f hb bm cs (label # labels) =
     (case map_of cs label of
        None \<Rightarrow> Inl (KeyError label)
      | Some slot \<Rightarrow>
          bindE (summarize f hb bm label slot) (\<lambda>(row, entry).
          bindE (summarize_all f hb bm cs labels) (\<lambda>(rows, entries).
          Inr (row # rows, entry # entries))))"

text \<open>Line 174 to 177.\<close>

definition header :: "int \<Rightarrow> bool \<Rightarrow> string list" where
  "header runs has_baseline =
     [''system''] @ map (\<lambda>i. ''run'' @ py_str_int i) [1..runs] @ [''mean'', ''stddev'']
       @ (if has_baseline then [''delta''] else []) @ [''budget'']"

text \<open>The dict \<^verbatim>\<open>entry_payload\<close> and the dict \<^verbatim>\<open>summary_payload\<close>, as \<^verbatim>\<open>json.dumps\<close> receives them.\<close>

definition entry_payload :: "summary \<Rightarrow> json" where
  "entry_payload s =
     JObj ([(''label'', JStr (s_label s)),
            (''units'', s_units s),
            (''count'', s_count s),
            (''budget_ms'', JNum (s_budget_ms s)),
            (''runs'', JList (map JNum (s_runs s))),
            (''mean_ms'', JNum (s_mean_ms s)),
            (''stddev_ms'', JNum (s_stddev_ms s))]
           @ (case s_delta_vs_baseline_ms s of
                None \<Rightarrow> []
              | Some d \<Rightarrow> [(''delta_vs_baseline_ms'', JNum d)]))"

definition baseline_meta_json :: "baseline_meta \<Rightarrow> json" where
  "baseline_meta_json m =
     JObj [(''path'', JStr (bm_path m)), (''label'', bm_label m),
           (''commit'', bm_commit m), (''timestamp'', bm_timestamp m)]"

definition summary_payload ::
  "args \<Rightarrow> run_context \<Rightarrow> string \<Rightarrow> baseline_meta option \<Rightarrow> (string \<times> json) list option
     \<Rightarrow> summary list \<Rightarrow> json" where
  "summary_payload a rc commit baseline_meta bench_meta systems =
     JObj ([(''label'', JStr (a_label a)),
            (''timestamp'', JStr (rc_timestamp rc)),
            (''commit'', JStr commit),
            (''command'', JList (map JStr (rc_cmd rc))),
            (''env'', JObj (map (\<lambda>(k, v). (k, JStr v)) (rc_env rc))),
            (''systems'', JList (map entry_payload systems))]
           @ (case baseline_meta of None \<Rightarrow> [] | Some m \<Rightarrow> [(''baseline'', baseline_meta_json m)])
           @ (case bench_meta of None \<Rightarrow> [] | Some m \<Rightarrow> [(''animation_targets_metadata'', JObj m)]))"

text \<open>
  Everything \<^verbatim>\<open>main\<close> computes before it writes: the rows, the summaries, the table and the
  payload. Of the text artefact only the table is modelled; the lines in front of it (label,
  timestamp, commit, command, environment, baseline and metadata lines) are left out.
\<close>

record outcome =
  o_rows :: "string list list"
  o_systems :: "summary list"
  o_table :: string
  o_payload :: json

definition compute :: "formats \<Rightarrow> filesystem \<Rightarrow> (int \<Rightarrow> trial) \<Rightarrow> run_context \<Rightarrow> args \<Rightarrow> error + outcome" where
  "compute f fs harness rc a =
     (let has_baseline = (a_baseline a \<noteq> []) in
      bindE (if has_baseline then bindE (load_baseline fs (a_baseline a)) (\<lambda>(m, meta). Inr (m, Some meta))
             else Inr (Map.empty, None)) (\<lambda>(baseline_map, baseline_meta).
      bindE (run_trials harness [1..a_runs a] ([], None)) (\<lambda>(cs, bench_meta).
      bindE (rc_git_rev rc) (\<lambda>commit.
      bindE (summarize_all f has_baseline baseline_map cs (sort (map fst cs))) (\<lambda>(rows, systems).
      bindE (format_table (header (a_runs a) has_baseline # rows)) (\<lambda>table.
      Inr \<lparr>o_rows = header (a_runs a) has_baseline # rows,
           o_systems = systems,
           o_table = table,
           o_payload = summary_payload a rc commit baseline_meta bench_meta systems\<rparr>))))))"

text \<open>
  \<^verbatim>\<open>main\<close>: the files it has written under \<^verbatim>\<open>perf/\<close> when it stops, and its return value or the
  exception it raises. The two writes are its last statements.
\<close>

datatype artifact = TextFile string | JsonFile json

definition main ::
  "formats \<Rightarrow> filesystem \<Rightarrow> (int \<Rightarrow> trial) \<Rightarrow> run_context \<Rightarrow> args
     \<Rightarrow> (string \<times> artifact) list \<times> (error + int)" where
  "main f fs harness rc a =
     (case compute f fs harness rc a of
        Inl e \<Rightarrow> ([], Inl e)
      | Inr out \<Rightarrow>
          ([(a_label a @ ''.txt'', TextFile (o_table out)),
            (a_label a @ ''.json'', JsonFile (o_payload out))],
           Inr 0))"

section \<open>capture\_sprite\_perf.py: the patterns\<close>

text \<open>
  The five regular expressions use literal text, \<^verbatim>\<open>\s+\<close>, and named groups \<^verbatim>\<open>(?P<name>\d+)\<close> and
  \<^verbatim>\<open>(?P<name>[0-9.]+)\<close>. A pattern is the list of these items. Text is ASCII: \<^verbatim>\<open>\d\<close> is a
  decimal digit and \<^verbatim>\<open>\s\<close> is one of the ten ASCII characters Python counts as white space.
\<close>

datatype cls = Digit | FloatChar

datatype item = Lit string | Space | Group string cls

type_synonym pattern = "item list"

type_synonym groupdict = "(string \<times> string) list"

definition is_digit :: "char \<Rightarrow> bool" where
  "is_digit c = (c \<in> set ''0123456789'')"

definition is_space :: "char \<Rightarrow> bool" where
  "is_space c = (c \<in> set [CHR '' '', CHR 0x09, CHR 0x0A, CHR 0x0B, CHR 0x0C, CHR 0x0D,
                            CHR 0x1C, CHR 0x1D, CHR 0x1E, CHR 0x1F])"

fun in_cls :: "cls \<Rightarrow> char \<Rightarrow> bool" where
  "in_cls Digit c = is_digit c"
| "in_cls FloatChar c = (is_digit c \<or> c = CHR ''.'')"

text \<open>
  A match of the pattern at the start of the text: the groups in pattern order, and the text
  after the match. A repetition takes the longest run of its class. In the five patterns every
  repetition is followed by a literal character outside its class or ends the pattern, so a
  shorter run never leads to a match and no backtracking is lost.
\<close>

fun match_here :: "pattern \<Rightarrow> string \<Rightarrow> (groupdict \<times> string) option" where
  "match_here [] s = Some ([], s)"
| "match_here (Lit l # p) s =
     (if take (length l) s = l then match_here p (drop (length l) s) else None)"
| "match_here (Space # p) s =
     (if takeWhile is_space s = [] then None else match_here p (dropWhile is_space s))"
| "match_here (Group name c # p) s =
     (if takeWhile (in_cls c) s = [] then None
      else map_option (\<lambda>(g, r). ((name, takeWhile (in_cls c) s) # g, r))
             (match_here p (dropWhile (in_cls c) s)))"

text \<open>\<^verbatim>\<open>pattern.search(text)\<close>: the match at the leftmost position that has one.\<close>

fun search :: "pattern \<Rightarrow> string \<Rightarrow> groupdict option" where
  "search p [] = map_option fst (match_here p [])"
| "search p (c # cs) =
     (case match_here p (c # cs) of Some (g, r) \<Rightarrow> Some g | None \<Rightarrow> search p cs)"

text \<open>
  \<^verbatim>\<open>pattern.finditer(text)\<close>: the matches from left to right, each search starting where the
  previous match ended (one character further after an empty match).
\<close>

fun finditer :: "pattern \<Rightarrow> string \<Rightarrow> groupdict list" where
  "finditer p [] = (case match_here p [] of Some (g, r) \<Rightarrow> [g] | None \<Rightarrow> [])"
| "finditer p (c # cs) =
     (case match_here p (c # cs) of
        Some (g, r) \<Rightarrow> g # finditer p (if length r < length (c # cs) then r else cs)
      | None \<Rightarrow> finditer p cs)"

definition STEP_STATS_RE :: pattern where
  "STEP_STATS_RE =
     [Lit ''[animation_profile] sys_drive per-step stats: mean='', Group ''mean'' FloatChar,
      Lit '' ms p95='', Group ''p95'' FloatChar,
      Lit '' ms max='', Group ''max'' FloatChar,
      Lit '' ms steady_mean='', Group ''steady'' FloatChar,
      Lit '' ms steady_samples='', Group ''steady_samples'' Digit,
      Lit '' spike_mean='', Group ''spike'' FloatChar,
      Lit '' ms spike_samples='', Group ''spike_samples'' Digit]"

definition SPRITE_TOTALS_RE :: pattern where
  "SPRITE_TOTALS_RE =
     [Lit ''[animation_profile] anim_stats sprite totals: fast_loop='', Group ''fast_loop'' Digit,
      Lit '' event='', Group ''event'' Digit,
      Lit '' plain='', Group ''plain'' Digit,
      Lit '' bsearch='', Group ''bsearch'' Digit,
      Lit '' fast_bucket='', Group ''fast_bucket'' Digit,
      Lit '' general_bucket='', Group ''general_bucket'' Digit,
      Lit '' applies='', Group ''applies'' Digit]"

definition SPRITE_BUCKET_AVG_RE :: pattern where
  "SPRITE_BUCKET_AVG_RE =
     [Lit ''[animation_profile] anim_stats sprite bucket avg: fast='', Group ''fast'' FloatChar,
      Lit '' entities/frame general='', Group ''general'' FloatChar,
      Lit '' entities/frame'']"

definition TOP_STEP_RE :: pattern where
  "TOP_STEP_RE =
     [Lit ''[animation_profile]'', Space, Lit ''step'', Space, Group ''index'' Digit,
      Space, Lit ''->'', Space, Group ''value'' FloatChar, Lit '' ms'']"

definition TOP_MIX_RE :: pattern where
  "TOP_MIX_RE =
     [Lit ''[animation_profile]'', Space, Lit ''step'', Space, Group ''index'' Digit,
      Space, Lit ''->'', Space, Group ''value'' FloatChar,
      Lit '' ms | sprite(fast='', Group ''fast'' Digit,
      Lit '' event='', Group ''event'' Digit,
      Lit '' plain='', Group ''plain'' Digit,
      Lit '' bsearch='', Group ''bsearch'' Digit,
      Lit '' fast_bucket='', Group ''fast_bucket'' Digit,
      Lit '' general_bucket='', Group ''general_bucket'' Digit,
      Lit '' applies='', Group ''applies'' Digit,
      Lit '') transform(adv='', Group ''adv'' Digit,
      Lit '' zero='', Group ''zero'' Digit,
      Lit '' skipped='', Group ''skipped'' Digit,
      Lit '' loop_resume='', Group ''loop_resume'' Digit,
      Lit '' zero_duration='', Group ''zero_duration'' Digit,
      Lit '' fast='', Group ''fast_path'' Digit,
      Lit '' slow='', Group ''slow_path'' Digit,
      Lit '') time_ns(adv='', Group ''adv_ns'' Digit,
      Lit '' sample='', Group ''sample_ns'' Digit,
      Lit '' apply='', Group ''apply_ns'' Digit,
      Lit '')'']"

section \<open>capture\_sprite\_perf.py: parse\_profile\_output\<close>

text \<open>
  \<^verbatim>\<open>int(v)\<close> and \<^verbatim>\<open>float(v)\<close> on text of digits and dots, which is all a group captures:
  \<^verbatim>\<open>int\<close> wants digits only; \<^verbatim>\<open>float\<close> wants at least one digit and at most one dot, and raises
  \<^verbatim>\<open>ValueError\<close> otherwise. (The limit of Python 3.11 on the number of digits \<^verbatim>\<open>int\<close> converts
  is not modelled.)
\<close>

definition digit_val :: "char \<Rightarrow> nat" where
  "digit_val c = of_char c - 48"

definition digits_val :: "string \<Rightarrow> nat" where
  "digits_val v = foldl (\<lambda>n c. 10 * n + digit_val c) 0 v"

definition valid_int :: "string \<Rightarrow> bool" where
  "valid_int v = (v \<noteq> [] \<and> list_all is_digit v)"

definition valid_float :: "string \<Rightarrow> bool" where
  "valid_float v =
     (list_all (in_cls FloatChar) v \<and> filter is_digit v \<noteq> [] \<and> length (filter (\<lambda>c. c = CHR ''.'') v) \<le> 1)"

definition py_int :: "string \<Rightarrow> error + int" where
  "py_int v = (if valid_int v then Inr (int (digits_val v)) else Inl ValueError)"

definition py_float :: "string \<Rightarrow> error + real" where
  "py_float v =
     (if valid_float v then
        (let whole = takeWhile is_digit v; frac = drop 1 (dropWhile is_digit v)
         in Inr (real (digits_val whole) + real (digits_val frac) / 10 ^ length frac))
      else Inl ValueError)"

text \<open>\<^verbatim>\<open>sub in s\<close> on strings.\<close>

fun contains :: "string \<Rightarrow> string \<Rightarrow> bool" where
  "contains sub [] = (sub = [])"
| "contains sub (c # cs) = (take (length sub) (c # cs) = sub \<or> contains sub cs)"

datatype num = PyInt int | PyFloat real

type_synonym metric = "(string \<times> num) list"

text \<open>A dict comprehension over \<^verbatim>\<open>match.groupdict().items()\<close>, in group order.\<close>

fun convert_items :: "(string \<Rightarrow> string \<Rightarrow> error + num) \<Rightarrow> groupdict \<Rightarrow> error + metric" where
  "convert_items conv [] = Inr []"
| "convert_items conv ((k, v) # g) =
     bindE (conv k v) (\<lambda>x. bindE (convert_items conv g) (\<lambda>m. Inr ((k, x) # m)))"

definition as_int :: "string \<Rightarrow> error + num" where
  "as_int v = bindE (py_int v) (\<lambda>i. Inr (PyInt i))"

definition as_float :: "string \<Rightarrow> error + num" where
  "as_float v = bindE (py_float v) (\<lambda>x. Inr (PyFloat x))"

text \<open>Line 177, line 180 and line 183.\<close>

definition step_stats_of :: "groupdict \<Rightarrow> error + metric" where
  "step_stats_of = convert_items (\<lambda>k v. if \<not> contains ''samples'' k then as_float v else as_int v)"

definition sprite_totals_of :: "groupdict \<Rightarrow> error + metric" where
  "sprite_totals_of = convert_items (\<lambda>k v. as_int v)"

definition sprite_bucket_avg_of :: "groupdict \<Rightarrow> error + metric" where
  "sprite_bucket_avg_of = convert_items (\<lambda>k v. as_float v)"

text \<open>\<^verbatim>\<open>m.group(key)\<close>: \<^verbatim>\<open>IndexError\<close> for a name the pattern does not have.\<close>

definition group :: "groupdict \<Rightarrow> string \<Rightarrow> error + string" where
  "group g key = (case map_of g key of None \<Rightarrow> Inl IndexError | Some v \<Rightarrow> Inr v)"

text \<open>Lines 187 to 189: one entry of \<^verbatim>\<open>top_steps\<close>.\<close>

definition top_step_of :: "groupdict \<Rightarrow> error + metric" where
  "top_step_of m =
     bindE (bindE (group m ''index'') as_int) (\<lambda>index.
     bindE (bindE (group m ''value'') as_float) (\<lambda>val.
     Inr [(''step'', index), (''ms'', val)]))"

text \<open>The two loops \<^verbatim>\<open>for key in [...]\<close> of lines 196 to 214.\<close>

fun int_groups :: "groupdict \<Rightarrow> string list \<Rightarrow> error + metric" where
  "int_groups m [] = Inr []"
| "int_groups m (key # keys) =
     bindE (bindE (group m key) as_int) (\<lambda>x.
     bindE (int_groups m keys) (\<lambda>rest. Inr ((key, x) # rest)))"

definition top_mix_of :: "groupdict \<Rightarrow> error + metric" where
  "top_mix_of m =
     bindE (bindE (group m ''index'') as_int) (\<lambda>index.
     bindE (bindE (group m ''value'') as_float) (\<lambda>val.
     bindE (int_groups m [''fast'', ''event'', ''plain'', ''bsearch'', ''fast_bucket'',
                           ''general_bucket'', ''applies'', ''adv'', ''zero'', ''skipped'',
                           ''loop_resume'', ''zero_duration'', ''fast_path'', ''slow_path'']) (\<lambda>counts.
     bindE (int_groups m [''adv_ns'', ''sample_ns'', ''apply_ns'']) (\<lambda>times.
     Inr ([(''step'', index), (''ms'', val)] @ counts @ times)))))"

text \<open>A loop \<^verbatim>\<open>for m in pattern.finditer(stdout)\<close> that appends one entry per match.\<close>

fun each_match :: "(groupdict \<Rightarrow> error + metric) \<Rightarrow> groupdict list \<Rightarrow> error + metric list" where
  "each_match conv [] = Inr []"
| "each_match conv (m # ms) =
     bindE (conv m) (\<lambda>x. bindE (each_match conv ms) (\<lambda>xs. Inr (x # xs)))"

text \<open>
  The dict \<^verbatim>\<open>data\<close>: a key of a single-shot category is \<open>None\<close> when absent; the keys
  \<^verbatim>\<open>top_steps\<close> and \<^verbatim>\<open>top_step_mix\<close> are absent exactly when their list is empty.
\<close>

record profile =
  per_step_stats :: "metric option"
  sprite_totals :: "metric option"
  sprite_bucket_avg :: "metric option"
  top_steps :: "metric list"
  top_step_mix :: "metric list"

definition single_shot :: "pattern \<Rightarrow> (groupdict \<Rightarrow> error + metric) \<Rightarrow> string \<Rightarrow> error + metric option" where
  "single_shot p conv stdout =
     (case search p stdout of None \<Rightarrow> Inr None | Some g \<Rightarrow> bindE (conv g) (\<lambda>m. Inr (Some m)))"

definition parse_profile_output :: "string \<Rightarrow> error + profile" where
  "parse_profile_output stdout =
     bindE (single_shot STEP_STATS_RE step_stats_of stdout) (\<lambda>stats.
     bindE (single_shot SPRITE_TOTALS_RE sprite_totals_of stdout) (\<lambda>totals.
     bindE (single_shot SPRITE_BUCKET_AVG_RE sprite_bucket_avg_of stdout) (\<lambda>avg.
     bindE (each_match top_step_of (finditer TOP_STEP_RE stdout)) (\<lambda>steps.
     bindE (each_match top_mix_of (finditer TOP_MIX_RE stdout)) (\<lambda>mix.
     Inr \<lparr>per_step_stats = stats, sprite_totals = totals, sprite_bucket_avg = avg,
          top_steps = steps, top_step_mix = mix\<rparr>)))))"

section \<open>Reference notions for the claims about the aggregation\<close>

text \<open>
  The values one label collects: from the reports of the trials, in trial order, the
  \<^verbatim>\<open>mean_step_ms\<close> of each entry that carries the label.
\<close>

definition label_values :: "string \<Rightarrow> report_entry list \<Rightarrow> real list" where
  "label_values l es = List.map_filter (\<lambda>e. if e_label e = Some l then e_mean_step_ms e else None) es"

definition collected :: "(int \<Rightarrow> trial) \<Rightarrow> int list \<Rightarrow> string \<Rightarrow> real list" where
  "collected harness idxs l =
     concat (map (\<lambda>i. case t_report (harness i) of
                         Some (Some r) \<Rightarrow> label_values l (rp_cases r)
                       | _ \<Rightarrow> []) idxs)"

definition runs_of :: "cases \<Rightarrow> string \<Rightarrow> real list" where
  "runs_of cs l = (case map_of cs l of None \<Rightarrow> [] | Some s \<Rightarrow> sl_runs s)"

text \<open>The arithmetic mean and the population standard deviation, as the specification words them.\<close>

definition arithmetic_mean :: "real list \<Rightarrow> real" where
  "arithmetic_mean xs = (\<Sum>x\<leftarrow>xs. x) / real (length xs)"

definition population_stddev :: "real list \<Rightarrow> real" where
  "population_stddev xs = sqrt ((\<Sum>x\<leftarrow>xs. (x - arithmetic_mean xs)\<^sup>2) / real (length xs))"

section \<open>Reference notions for the claims about the extractor\<close>

text \<open>
  The occurrences of a pattern in a text: the groups of the match at every position where the
  pattern matches, from left to right.
\<close>

definition occurrences :: "pattern \<Rightarrow> string \<Rightarrow> groupdict list" where
  "occurrences p s =
     List.map_filter (\<lambda>i. map_option fst (match_here p (drop i s))) [0..<Suc (length s)]"

text \<open>
  A pattern that starts with a literal opening bracket and has no other opening bracket in
  its literals: two of its matches cannot overlap.
\<close>

fun bracket_free :: "item \<Rightarrow> bool" where
  "bracket_free (Lit l) = (CHR ''['' \<notin> set l)"
| "bracket_free _ = True"

fun anchored :: "pattern \<Rightarrow> bool" where
  "anchored (Lit (c # l) # p) = (c = CHR ''['' \<and> CHR ''['' \<notin> set l \<and> list_all bracket_free p)"
| "anchored _ = False"

text \<open>The names and classes of the groups of a pattern, in order.\<close>

fun group_specs :: "pattern \<Rightarrow> (string \<times> cls) list" where
  "group_specs [] = []"
| "group_specs (Group name c # p) = (name, c) # group_specs p"
| "group_specs (_ # p) = group_specs p"

text \<open>
  A match has a field that is converted with \<^verbatim>\<open>float\<close> and whose text is not a float; and a
  text has such a match among the matches the parser converts: the first occurrence of a
  single-shot pattern, every occurrence of a repeating one.
\<close>

definition bad_float_in :: "(string \<Rightarrow> bool) \<Rightarrow> groupdict \<Rightarrow> bool" where
  "bad_float_in is_float g = list_ex (\<lambda>(k, v). is_float k \<and> \<not> valid_float v) g"

definition malformed :: "string \<Rightarrow> bool" where
  "malformed stdout \<longleftrightarrow>
       list_ex (bad_float_in (\<lambda>k. \<not> contains ''samples'' k)) (take 1 (occurrences STEP_STATS_RE stdout))
     \<or> list_ex (bad_float_in (\<lambda>k. True)) (take 1 (occurrences SPRITE_BUCKET_AVG_RE stdout))
     \<or> list_ex (bad_float_in (\<lambda>k. k = ''value'')) (occurrences TOP_STEP_RE stdout)
     \<or> list_ex (bad_float_in (\<lambda>k. k = ''value'')) (occurrences TOP_MIX_RE stdout)"

section \<open>Reference notions for the claims about the baseline\<close>

text \<open>
  The per-label entries a baseline document holds: the items of its \<^verbatim>\<open>systems\<close> list that are
  objects with a \<^verbatim>\<open>label\<close> key.
\<close>

fun has_label :: "json \<Rightarrow> bool" where
  "has_label (JObj flds) = (map_of flds ''label'' \<noteq> None)"
| "has_label _ = False"

fun per_label_entries :: "json \<Rightarrow> json list" where
  "per_label_entries (JObj kvs) =
     (case map_of kvs ''systems'' of Some (JList es) \<Rightarrow> filter has_label es | _ \<Rightarrow> [])"
| "per_label_entries _ = []"

text \<open>The label to mean association of the summaries of a payload.\<close>

definition label_means :: "summary list \<Rightarrow> (json \<rightharpoonup> json)" where
  "label_means systems = map_of (map (\<lambda>s. (JStr (s_label s), JNum (s_mean_ms s))) systems)"

section \<open>Example inputs\<close>

text \<open>
  A pair of formats for the examples: three decimals, rounding half up on the real value
  (Python rounds the binary value half to even; the theorems below hold for every pair).
\<close>

definition pad3 :: "nat \<Rightarrow> string" where
  "pad3 n = [''0123456789'' ! (n div 100), ''0123456789'' ! (n div 10 mod 10), ''0123456789'' ! (n mod 10)]"

definition fixed3 :: "real \<Rightarrow> string" where
  "fixed3 r = (let n = nat \<lfloor>\<bar>r\<bar> * 1000 + 1 / 2\<rfloor>
               in (if r < 0 then ''-'' else []) @ py_str_nat (n div 1000) @ ''.'' @ pad3 (n mod 1000))"

definition demo_formats :: formats where
  "demo_formats = \<lparr>fmt3 = fixed3, fmt3s = (\<lambda>r. if r < 0 then fixed3 r else ''+'' @ fixed3 r)\<rparr>"

definition demo_entry :: "string \<Rightarrow> real \<Rightarrow> report_entry" where
  "demo_entry l v =
     \<lparr>e_label = Some l, e_units = JStr ''ms'', e_count = JNum 10000, e_budget_ms = Some (3 / 10),
      e_steps = JNum 240, e_samples = JNum 240, e_mean_step_ms = Some v\<rparr>"

definition demo_trial :: "int \<Rightarrow> report_entry list \<Rightarrow> trial" where
  "demo_trial code es = \<lparr>t_returncode = code, t_report = Some (Some \<lparr>rp_metadata = [], rp_cases = es\<rparr>)\<rparr>"

definition demo_context :: run_context where
  "demo_context = \<lparr>rc_cmd = [''cargo'', ''test''], rc_env = [(''ANIMATION_PROFILE_COUNT'', ''10000'')],
                    rc_timestamp = ''2025-01-01T00:00:00'', rc_git_rev = Inr ''abc123''\<rparr>"

text \<open>Three trials that report one label with the values 10, 20 and 30.\<close>

definition demo_harness_3 :: "int \<Rightarrow> trial" where
  "demo_harness_3 i = demo_trial 0 [demo_entry ''sprite_fast'' (10 * of_int i)]"

text \<open>
  Two trials that report two labels, and a baseline artefact that knows one of them, with
  mean 5.
\<close>

definition demo_harness_2 :: "int \<Rightarrow> trial" where
  "demo_harness_2 i =
     demo_trial 0 [demo_entry ''sprite_general'' 7, demo_entry ''sprite_fast'' (13 / 2)]"

definition demo_baseline :: json where
  "demo_baseline =
     JObj [(''label'', JStr ''before''), (''commit'', JStr ''0a1b2c''),
           (''systems'', JList [JObj [(''label'', JStr ''sprite_fast''), (''mean_ms'', JNum 5)]])]"

definition demo_fs :: filesystem where
  "demo_fs = [''perf/before.json'' \<mapsto> Some demo_baseline]"

text \<open>A baseline artefact whose only entry has a label and no \<^verbatim>\<open>mean_ms\<close>.\<close>

definition demo_fs_no_mean :: filesystem where
  "demo_fs_no_mean =
     [''perf/old.json'' \<mapsto> Some (JObj [(''systems'', JList [JObj [(''label'', JStr ''sprite_fast'')]])])]"

text \<open>A baseline artefact whose only entry has a \<^verbatim>\<open>mean_ms\<close> and no label.\<close>

definition demo_unlabelled :: json where
  "demo_unlabelled = JObj [(''systems'', JList [JObj [(''mean_ms'', JNum 1)]])]"

definition demo_fs_unlabelled :: filesystem where
  "demo_fs_unlabelled = [''perf/odd.json'' \<mapsto> Some demo_unlabelled]"

text \<open>Three trials of which the second exits with status 101.\<close>

definition demo_harness_fail :: "int \<Rightarrow> trial" where
  "demo_harness_fail i = demo_trial (if i = 2 then 101 else 0) [demo_entry ''sprite_fast'' 10]"

text \<open>Two trials; the second one no longer reports the label \<open>sprite_general\<close>.\<close>

definition demo_harness_ragged :: "int \<Rightarrow> trial" where
  "demo_harness_ragged i =
     demo_trial 0 (if i = 1 then [demo_entry ''sprite_general'' 7, demo_entry ''sprite_fast'' (13 / 2)]
                   else [demo_entry ''sprite_fast'' (13 / 2)])"

text \<open>One trial whose report lists the label \<open>sprite_fast\<close> twice.\<close>

definition demo_harness_twice :: "int \<Rightarrow> trial" where
  "demo_harness_twice i = demo_trial 0 [demo_entry ''sprite_fast'' 6, demo_entry ''sprite_fast'' 7]"

text \<open>
  The output of one profile run: the per-step statistics twice (with different numbers), a
  top-step line, a top-step line with its mix, and lines that match nothing.
\<close>

definition demo_stdout :: string where
  "demo_stdout =
     ''running 1 test'' @ [CHR 0x0A] @
     ''[animation_profile] sys_drive per-step stats: mean=0.25 ms p95=0.5 ms max=1.75 ms '' @
     ''steady_mean=0.2 ms steady_samples=230 spike_mean=1.5 ms spike_samples=10'' @ [CHR 0x0A] @
     ''[animation_profile] sys_drive per-step stats: mean=9.5 ms p95=9.5 ms max=9.5 ms '' @
     ''steady_mean=9.5 ms steady_samples=9 spike_mean=9.5 ms spike_samples=9'' @ [CHR 0x0A] @
     ''[animation_profile]   step 17 -> 1.75 ms'' @ [CHR 0x0A] @
     ''[animation_profile]   step 3 -> 1.5 ms | sprite(fast=1 event=2 plain=3 bsearch=4 '' @
     ''fast_bucket=5 general_bucket=6 applies=7) transform(adv=8 zero=9 skipped=10 '' @
     ''loop_resume=11 zero_duration=12 fast=13 slow=14) time_ns(adv=15 sample=16 apply=17)'' @
     [CHR 0x0A] @ ''test result: ok.''"

text \<open>A top-step line whose value has two dots.\<close>

definition demo_stdout_bad :: string where
  "demo_stdout_bad = ''warming up'' @ [CHR 0x0A] @ ''[animation_profile] step 3 -> 1.2.3 ms''"

section \<open>Auxiliary lemmas\<close>

lemma bindE_eq_Inr: "bindE m f = Inr y \<longleftrightarrow> (\<exists>x. m = Inr x \<and> f x = Inr y)"
  by (cases m) (simp_all add: bindE_def)

lemma bindE_Inl: "bindE (Inl e) f = Inl e"
  by (simp add: bindE_def)

lemma bindE_Inr: "bindE (Inr x) f = f x"
  by (simp add: bindE_def)

subsection \<open>The aggregation loop\<close>

lemma map_of_append_run:
  "map_of (append_run cs l v) k =
     map_option (\<lambda>s. if k = l then s\<lparr>sl_runs := sl_runs s @ [v]\<rparr> else s) (map_of cs k)"
  by (induction cs) (auto simp: append_run_def)

lemma map_of_setdefault:
  "map_of (setdefault cs l d) k = (if map_of cs l = None \<and> k = l then Some d else map_of cs k)"
  by (auto simp: setdefault_def map_of_append map_add_def split: option.splits)

lemma runs_of_observe_entry:
  assumes "observe_entry cs e = Inr cs'"
  shows "runs_of cs' l = runs_of cs l @ label_values l [e]"
proof -
  from assms obtain k v where k: "e_label e = Some k" and v: "e_mean_step_ms e = Some v"
    and cs': "cs' = append_run (setdefault cs k
                 \<lparr>sl_units = e_units e, sl_count = e_count e, sl_budget = e_budget_ms e,
                  sl_steps = e_steps e, sl_samples = e_samples e, sl_runs = []\<rparr>) k v"
    by (auto simp: observe_entry_def Let_def split: option.splits)
  show ?thesis
    by (cases "map_of cs l")
       (auto simp: cs' runs_of_def map_of_append_run map_of_setdefault label_values_def
          List.map_filter_simps k v)
qed

lemma label_values_Cons: "label_values l (e # es) = label_values l [e] @ label_values l es"
  by (simp add: label_values_def List.map_filter_simps split: option.splits)

lemma runs_of_observe:
  "observe cs es = Inr cs' \<Longrightarrow> runs_of cs' l = runs_of cs l @ label_values l es"
proof (induction es arbitrary: cs)
  case Nil
  then show ?case by (simp add: label_values_def List.map_filter_simps)
next
  case (Cons e es)
  from Cons.prems obtain cs1 where 1: "observe_entry cs e = Inr cs1" and 2: "observe cs1 es = Inr cs'"
    by (auto simp: bindE_eq_Inr)
  show ?case
    using Cons.IH [OF 2] runs_of_observe_entry [OF 1, of l] label_values_Cons [of l e es] by simp
qed

lemma runs_of_run_trials:
  "run_trials harness idxs st = Inr st' \<Longrightarrow>
     runs_of (fst st') l = runs_of (fst st) l @ collected harness idxs l"
proof (induction idxs arbitrary: st)
  case Nil
  then show ?case by (simp add: collected_def)
next
  case (Cons idx idxs)
  from Cons.prems obtain r cs1 bm where r: "t_report (harness idx) = Some (Some r)"
    and 1: "observe (fst st) (rp_cases r) = Inr cs1"
    and 2: "run_trials harness idxs (cs1, bm) = Inr st'"
    by (auto simp: bindE_eq_Inr read_report_def Let_def split: option.splits)
  show ?case
    using Cons.IH [OF 2] runs_of_observe [OF 1, of l] r by (simp add: collected_def)
qed

subsection \<open>The summaries\<close>

lemma summarize_all_member:
  "summarize_all f hb bm cs labels = Inr (rows, systems) \<Longrightarrow> s \<in> set systems \<Longrightarrow>
     \<exists>label slot row. label \<in> set labels \<and> map_of cs label = Some slot \<and>
        summarize f hb bm label slot = Inr (row, s)"
proof (induction labels arbitrary: rows systems)
  case Nil
  then show ?case by simp
next
  case (Cons label labels)
  from Cons.prems(1) obtain slot row entry rows' entries'
    where slot: "map_of cs label = Some slot"
      and 1: "summarize f hb bm label slot = Inr (row, entry)"
      and 2: "summarize_all f hb bm cs labels = Inr (rows', entries')"
      and sys: "systems = entry # entries'"
    by (auto simp: bindE_eq_Inr split: option.splits)
  show ?case
  proof (cases "s = entry")
    case True
    with slot 1 show ?thesis by auto
  next
    case False
    with Cons.prems(2) sys have "s \<in> set entries'" by simp
    from Cons.IH [OF 2 this] show ?thesis by auto
  qed
qed

lemma summarize_stats:
  assumes "summarize f hb bm label slot = Inr (row, s)"
  shows "s_label s = label" and "s_runs s = sl_runs slot" and "sl_runs slot \<noteq> []"
    and "s_mean_ms s = arithmetic_mean (sl_runs slot)"
    and "s_stddev_ms s = (if length (sl_runs slot) < 2 then 0 else population_stddev (sl_runs slot))"
  using assms
  by (auto simp: summarize_def Let_def bindE_eq_Inr stats_mean_def stats_pstdev_def
      arithmetic_mean_def population_stddev_def split: if_splits option.splits)

subsection \<open>What \<^verbatim>\<open>main\<close> computes\<close>

lemma compute_systems:
  assumes "compute f fs harness rc a = Inr out"
  obtains bmap cs bench_meta rows where
    "run_trials harness [1..a_runs a] ([], None) = Inr (cs, bench_meta)"
    "summarize_all f (a_baseline a \<noteq> []) bmap cs (sort (map fst cs)) = Inr (rows, o_systems out)"
    "o_rows out = header (a_runs a) (a_baseline a \<noteq> []) # rows"
    "(a_baseline a = [] \<and> bmap = Map.empty) \<or>
     (a_baseline a \<noteq> [] \<and> (\<exists>meta. load_baseline fs (a_baseline a) = Inr (bmap, meta)))"
  using assms
  by (auto simp: compute_def Let_def bindE_eq_Inr split: if_splits)

lemma population_stddev_10_20_30:
  "population_stddev [10, 20, 30] = sqrt (200 / 3)"
  "\<bar>sqrt (200 / 3) - 8165 / 1000\<bar> < 1 / 1000"
proof -
  show "population_stddev [10, 20, 30] = sqrt (200 / 3)"
    by (simp add: population_stddev_def arithmetic_mean_def)
  have "(8164 / 1000 :: real)\<^sup>2 < 200 / 3" by (simp add: power2_eq_square)
  then have lo: "8164 / 1000 < sqrt (200 / 3)" by (rule real_less_rsqrt)
  have "(200 / 3 :: real) < (8166 / 1000)\<^sup>2" by (simp add: power2_eq_square)
  then have hi: "sqrt (200 / 3) < 8166 / 1000" by (intro real_less_lsqrt) simp_all
  from lo hi show "\<bar>sqrt (200 / 3) - 8165 / 1000\<bar> < 1 / 1000" unfolding abs_less_iff by linarith
qed

lemma upto_1_2: "[1..(2::int)] = [1, 2]"
  by (simp add: upto.simps)

lemma upto_1_3: "[1..(3::int)] = [1, 2, 3]"
  by (simp add: upto.simps)

lemmas run_defs =
  compute_def Let_def bindE_def demo_trial_def demo_entry_def demo_context_def run_once_def
  read_report_def observe_entry_def setdefault_def append_run_def summarize_def stats_mean_def
  stats_pstdev_def delta_of_def header_def format_table_def

lemma demo_3_systems:
  "\<exists>out s. compute demo_formats Map.empty demo_harness_3 demo_context
        \<lparr>a_label = ''demo'', a_runs = 3, a_baseline = []\<rparr> = Inr out
      \<and> o_systems out = [s] \<and> s_runs s = [10, 20, 30]"
  by (simp add: run_defs upto_1_3 demo_harness_3_def)

lemma summarize_all_zip:
  "summarize_all f hb bm cs labels = Inr (rows, systems) \<Longrightarrow> (row, s) \<in> set (zip rows systems) \<Longrightarrow>
     \<exists>label slot. label \<in> set labels \<and> map_of cs label = Some slot \<and>
        summarize f hb bm label slot = Inr (row, s)"
proof (induction labels arbitrary: rows systems)
  case Nil
  then show ?case by simp
next
  case (Cons label labels)
  from Cons.prems(1) obtain slot row' entry rows' entries'
    where slot: "map_of cs label = Some slot"
      and 1: "summarize f hb bm label slot = Inr (row', entry)"
      and 2: "summarize_all f hb bm cs labels = Inr (rows', entries')"
      and sys: "systems = entry # entries'" "rows = row' # rows'"
    by (auto simp: bindE_eq_Inr split: option.splits)
  show ?case
  proof (cases "(row, s) = (row', entry)")
    case True
    with slot 1 show ?thesis by auto
  next
    case False
    with Cons.prems(2) sys have "(row, s) \<in> set (zip rows' entries')" by auto
    from Cons.IH [OF 2 this] show ?thesis by auto
  qed
qed

lemma summarize_all_length:
  "summarize_all f hb bm cs labels = Inr (rows, systems) \<Longrightarrow>
     length rows = length labels \<and> length systems = length labels"
  by (induction labels arbitrary: rows systems) (auto simp: bindE_eq_Inr split: option.splits)

lemma summarize_row:
  assumes "summarize f hb bm label slot = Inr (row, s)"
  shows "\<exists>dc. delta_of f hb bm (s_label s) (s_mean_ms s) = Inr (dc, s_delta_vs_baseline_ms s)
          \<and> row = [s_label s] @ map (fmt3 f) (s_runs s) @ [fmt3 f (s_mean_ms s), fmt3 f (s_stddev_ms s)]
                   @ (if hb then [if dc \<noteq> [] then dc else ''n/a''] else [])
                   @ [fmt3 f (s_budget_ms s)]"
proof -
  from assms obtain mean_val std_val dc dp budget where
    d: "delta_of f hb bm label mean_val = Inr (dc, dp)"
    and row: "row = [label] @ map (fmt3 f) (sl_runs slot) @ [fmt3 f mean_val, fmt3 f std_val]
                 @ (if hb then [if dc \<noteq> [] then dc else ''n/a''] else [])
                 @ [fmt3 f budget]"
    and s: "s = \<lparr>s_label = label, s_units = sl_units slot, s_count = sl_count slot,
                s_budget_ms = budget, s_runs = sl_runs slot, s_mean_ms = mean_val,
                s_stddev_ms = std_val, s_delta_vs_baseline_ms = dp\<rparr>"
    unfolding summarize_def Let_def
    by (auto simp: bindE_eq_Inr split: option.splits)
  show ?thesis
    by (rule exI [of _ dc]) (simp add: d row s)
qed

lemma compute_zip:
  assumes "compute f fs harness rc a = Inr out"
    and "(row, s) \<in> set (zip (tl (o_rows out)) (o_systems out))"
  obtains dc bmap where
    "(a_baseline a = [] \<and> bmap = Map.empty) \<or>
     (a_baseline a \<noteq> [] \<and> (\<exists>meta. load_baseline fs (a_baseline a) = Inr (bmap, meta)))"
    "delta_of f (a_baseline a \<noteq> []) bmap (s_label s) (s_mean_ms s) = Inr (dc, s_delta_vs_baseline_ms s)"
    "row = [s_label s] @ map (fmt3 f) (s_runs s) @ [fmt3 f (s_mean_ms s), fmt3 f (s_stddev_ms s)]
             @ (if a_baseline a \<noteq> [] then [if dc \<noteq> [] then dc else ''n/a''] else [])
             @ [fmt3 f (s_budget_ms s)]"
proof -
  from assms(1) obtain bmap cs bench_meta rows where
    sa: "summarize_all f (a_baseline a \<noteq> []) bmap cs (sort (map fst cs)) = Inr (rows, o_systems out)"
    and rows: "o_rows out = header (a_runs a) (a_baseline a \<noteq> []) # rows"
    and b: "(a_baseline a = [] \<and> bmap = Map.empty) \<or>
     (a_baseline a \<noteq> [] \<and> (\<exists>meta. load_baseline fs (a_baseline a) = Inr (bmap, meta)))"
    by (rule compute_systems)
  from assms(2) rows have "(row, s) \<in> set (zip rows (o_systems out))" by simp
  from summarize_all_zip [OF sa this] obtain label slot where
    "summarize f (a_baseline a \<noteq> []) bmap label slot = Inr (row, s)" by blast
  from summarize_row [OF this] obtain dc where
    "delta_of f (a_baseline a \<noteq> []) bmap (s_label s) (s_mean_ms s) = Inr (dc, s_delta_vs_baseline_ms s)"
    "row = [s_label s] @ map (fmt3 f) (s_runs s) @ [fmt3 f (s_mean_ms s), fmt3 f (s_stddev_ms s)]
             @ (if a_baseline a \<noteq> [] then [if dc \<noteq> [] then dc else ''n/a''] else [])
             @ [fmt3 f (s_budget_ms s)]"
    by blast
  with b that show ?thesis by blast
qed

lemma entry_payload_delta:
  "py_getitem (entry_payload s) ''delta_vs_baseline_ms'' =
     (case s_delta_vs_baseline_ms s of
        None \<Rightarrow> Inl (KeyError ''delta_vs_baseline_ms'')
      | Some d \<Rightarrow> Inr (JNum d))"
  by (simp add: entry_payload_def split: option.splits)

lemma demo_load_baseline:
  "load_baseline demo_fs ''perf/before.json'' =
     Inr ([JStr ''sprite_fast'' \<mapsto> JNum 5],
          \<lparr>bm_path = ''perf/before.json'', bm_label = JStr ''before'', bm_commit = JStr ''0a1b2c'',
           bm_timestamp = JNull\<rparr>)"
  by (simp add: load_baseline_def demo_fs_def demo_baseline_def bindE_def)

lemma demo_2_eval:
  "case compute demo_formats demo_fs demo_harness_2 demo_context
          \<lparr>a_label = ''demo'', a_runs = 2, a_baseline = ''perf/before.json''\<rparr> of
     Inl _ \<Rightarrow> False
   | Inr out \<Rightarrow> length (o_rows out) = 3
       \<and> map s_label (o_systems out) = [''sprite_fast'', ''sprite_general'']
       \<and> map s_mean_ms (o_systems out) = [13 / 2, 7]"
  by (simp add: run_defs upto_1_2 demo_harness_2_def demo_load_baseline)

lemma demo_2_run:
  obtains out r1 r2 s1 s2 where
    "compute demo_formats demo_fs demo_harness_2 demo_context
          \<lparr>a_label = ''demo'', a_runs = 2, a_baseline = ''perf/before.json''\<rparr> = Inr out"
    "zip (tl (o_rows out)) (o_systems out) = [(r1, s1), (r2, s2)]"
    "s_label s1 = ''sprite_fast''" "s_mean_ms s1 = 13 / 2"
    "s_label s2 = ''sprite_general''" "s_mean_ms s2 = 7"
proof -
  from demo_2_eval obtain out where
    c: "compute demo_formats demo_fs demo_harness_2 demo_context
          \<lparr>a_label = ''demo'', a_runs = 2, a_baseline = ''perf/before.json''\<rparr> = Inr out"
    and l: "length (o_rows out) = 3"
    and n: "map s_label (o_systems out) = [''sprite_fast'', ''sprite_general'']"
    and m: "map s_mean_ms (o_systems out) = [13 / 2, 7]"
    by (auto split: sum.splits)
  from n obtain s1 s2 where sys: "o_systems out = [s1, s2]" by auto
  from l obtain r0 r1 r2 where rows: "o_rows out = [r0, r1, r2]"
    by (auto simp: length_Suc_conv numeral_3_eq_3)
  from that [OF c, of r1 s1 r2 s2] sys rows n m show ?thesis by simp
qed

lemma header_no_baseline:
  "header runs False = [''system''] @ map (\<lambda>i. ''run'' @ py_str_int i) [1..runs] @ [''mean'', ''stddev'', ''budget'']"
  by (simp add: header_def)

lemma delta_in_header: "''delta'' \<in> set (header runs hb) \<longleftrightarrow> hb"
  by (auto simp: header_def)

lemma compute_rows_length:
  assumes "compute f fs harness rc a = Inr out"
  shows "length (tl (o_rows out)) = length (o_systems out)"
    and "hd (o_rows out) = header (a_runs a) (a_baseline a \<noteq> [])"
proof -
  from assms obtain bmap cs bench_meta rows where
    sa: "summarize_all f (a_baseline a \<noteq> []) bmap cs (sort (map fst cs)) = Inr (rows, o_systems out)"
    and rows: "o_rows out = header (a_runs a) (a_baseline a \<noteq> []) # rows"
    by (rule compute_systems)
  from summarize_all_length [OF sa] rows show "length (tl (o_rows out)) = length (o_systems out)"
    by simp
  from rows show "hd (o_rows out) = header (a_runs a) (a_baseline a \<noteq> [])" by simp
qed

lemma compute_row_shape:
  assumes "compute f fs harness rc a = Inr out"
    and "(row, s) \<in> set (zip (tl (o_rows out)) (o_systems out))"
  shows "a_baseline a = [] \<Longrightarrow> s_delta_vs_baseline_ms s = None"
    and "a_baseline a = [] \<Longrightarrow>
           row = [s_label s] @ map (fmt3 f) (s_runs s)
                   @ [fmt3 f (s_mean_ms s), fmt3 f (s_stddev_ms s), fmt3 f (s_budget_ms s)]"
    and "length row = length (s_runs s) + (if a_baseline a = [] then 4 else 5)"
proof -
  from assms obtain dc bmap where
    d: "delta_of f (a_baseline a \<noteq> []) bmap (s_label s) (s_mean_ms s) = Inr (dc, s_delta_vs_baseline_ms s)"
    and r: "row = [s_label s] @ map (fmt3 f) (s_runs s) @ [fmt3 f (s_mean_ms s), fmt3 f (s_stddev_ms s)]
             @ (if a_baseline a \<noteq> [] then [if dc \<noteq> [] then dc else ''n/a''] else [])
             @ [fmt3 f (s_budget_ms s)]"
    by (rule compute_zip)
  from d show "a_baseline a = [] \<Longrightarrow> s_delta_vs_baseline_ms s = None"
    by (simp add: delta_of_def)
  from r show "a_baseline a = [] \<Longrightarrow>
           row = [s_label s] @ map (fmt3 f) (s_runs s)
                   @ [fmt3 f (s_mean_ms s), fmt3 f (s_stddev_ms s), fmt3 f (s_budget_ms s)]"
    by simp
  show "length row = length (s_runs s) + (if a_baseline a = [] then 4 else 5)"
    by (subst r) simp
qed

lemma baseline_mapping_append:
  "baseline_mapping (xs @ ys) m = bindE (baseline_mapping xs m) (baseline_mapping ys)"
  by (induction xs arbitrary: m) (auto simp: bindE_def split: sum.splits)

lemma baseline_mapping_other:
  "baseline_mapping es m = Inr m' \<Longrightarrow> \<forall>e \<in> set es. py_getitem e ''label'' \<noteq> Inr k \<Longrightarrow> m' k = m k"
proof (induction es arbitrary: m)
  case Nil
  then show ?case by simp
next
  case (Cons e es)
  from Cons.prems(1) obtain l v where l: "py_getitem e ''label'' = Inr l"
    and rest: "baseline_mapping es (m(l \<mapsto> v)) = Inr m'"
    by (auto simp: bindE_eq_Inr split: if_splits)
  from Cons.prems(2) l have "l \<noteq> k" by auto
  with Cons.IH [OF rest] Cons.prems(2) show ?case by simp
qed

lemma load_baseline_obj:
  assumes "fs path = Some (Some (JObj kvs))" and "load_baseline fs path = Inr (bmap, meta)"
  obtains systems entries where
    "py_get (JObj kvs) ''systems'' (JList []) = Inr systems"
    "py_iter systems = Inr entries"
    "baseline_mapping entries Map.empty = Inr bmap"
  using assms by (auto simp: load_baseline_def bindE_eq_Inr)

lemma compute_delta:
  assumes "compute f fs harness rc a = Inr out" and "s \<in> set (o_systems out)"
  obtains dc bmap where
    "(a_baseline a = [] \<and> bmap = Map.empty) \<or>
     (a_baseline a \<noteq> [] \<and> (\<exists>meta. load_baseline fs (a_baseline a) = Inr (bmap, meta)))"
    "delta_of f (a_baseline a \<noteq> []) bmap (s_label s) (s_mean_ms s) = Inr (dc, s_delta_vs_baseline_ms s)"
proof -
  from assms(2) compute_rows_length(1) [OF assms(1)]
  obtain row where "(row, s) \<in> set (zip (tl (o_rows out)) (o_systems out))"
    by (metis in_set_impl_in_set_zip2)
  from compute_zip [OF assms(1) this] that show ?thesis by metis
qed

lemma demo_no_mean_eval:
  "case compute demo_formats demo_fs_no_mean demo_harness_2 demo_context
          \<lparr>a_label = ''demo'', a_runs = 2, a_baseline = ''perf/old.json''\<rparr> of
     Inl _ \<Rightarrow> False
   | Inr out \<Rightarrow> map s_label (o_systems out) = [''sprite_fast'', ''sprite_general'']
       \<and> map s_mean_ms (o_systems out) = [13 / 2, 7]"
  by (simp add: run_defs upto_1_2 demo_harness_2_def load_baseline_def demo_fs_no_mean_def)

subsection \<open>The baseline loader\<close>

lemma bindE_eq_Inl: "bindE m f = Inl e \<longleftrightarrow> m = Inl e \<or> (\<exists>x. m = Inr x \<and> f x = Inl e)"
  by (cases m) (simp_all add: bindE_def)

lemma py_get_not_found: "py_get j k d \<noteq> Inl FileNotFoundError"
  by (cases j) (simp_all split: option.splits)

lemma py_get_obj: "\<exists>v. py_get (JObj kvs) k d = Inr v"
  by (simp split: option.splits)

lemma py_getitem_not_found: "py_getitem j k \<noteq> Inl FileNotFoundError"
  by (cases j) (simp_all split: option.splits)

lemma py_iter_not_found: "py_iter j \<noteq> Inl FileNotFoundError"
  by (cases j) simp_all

lemma baseline_mapping_not_found: "baseline_mapping es m \<noteq> Inl FileNotFoundError"
  by (induction es arbitrary: m)
     (auto simp: bindE_eq_Inl py_get_not_found py_getitem_not_found)

lemma load_baseline_not_found_iff:
  "load_baseline fs path = Inl FileNotFoundError \<longleftrightarrow> fs path = None"
proof (cases "fs path")
  case None
  then show ?thesis by (simp add: load_baseline_def)
next
  case (Some content)
  show ?thesis
  proof (cases content)
    case None
    with Some show ?thesis by (simp add: load_baseline_def)
  next
    case (Some payload)
    with \<open>fs path = Some content\<close> show ?thesis
      by (auto simp: load_baseline_def bindE_eq_Inl py_get_not_found py_iter_not_found
          baseline_mapping_not_found)
  qed
qed

subsection \<open>Labels of a run and the round trip of the payload\<close>

lemma map_fst_append_run: "map fst (append_run cs l v) = map fst cs"
  by (induction cs) (auto simp: append_run_def)

lemma distinct_setdefault: "distinct (map fst cs) \<Longrightarrow> distinct (map fst (setdefault cs l d))"
  by (auto simp: setdefault_def map_of_eq_None_iff split: option.splits)

lemma distinct_observe_entry:
  "observe_entry cs e = Inr cs' \<Longrightarrow> distinct (map fst cs) \<Longrightarrow> distinct (map fst cs')"
  by (auto simp: observe_entry_def Let_def map_fst_append_run distinct_setdefault
      split: option.splits)

lemma distinct_observe:
  "observe cs es = Inr cs' \<Longrightarrow> distinct (map fst cs) \<Longrightarrow> distinct (map fst cs')"
  by (induction es arbitrary: cs) (auto simp: bindE_eq_Inr dest: distinct_observe_entry)

lemma distinct_run_trials:
  "run_trials harness idxs st = Inr st' \<Longrightarrow> distinct (map fst (fst st)) \<Longrightarrow>
     distinct (map fst (fst st'))"
proof (induction idxs arbitrary: st)
  case Nil
  then show ?case by simp
next
  case (Cons idx idxs)
  from Cons.prems(1) obtain es cs1 bm where
    1: "observe (fst st) es = Inr cs1" and 2: "run_trials harness idxs (cs1, bm) = Inr st'"
    by (auto simp: bindE_eq_Inr Let_def)
  from distinct_observe [OF 1 Cons.prems(2)] Cons.IH [OF 2] show ?case by simp
qed

lemma summarize_all_labels:
  "summarize_all f hb bm cs labels = Inr (rows, systems) \<Longrightarrow> map s_label systems = labels"
proof (induction labels arbitrary: rows systems)
  case Nil
  then show ?case by simp
next
  case (Cons label labels)
  from Cons.prems obtain slot row entry rows' entries'
    where 1: "summarize f hb bm label slot = Inr (row, entry)"
      and 2: "summarize_all f hb bm cs labels = Inr (rows', entries')"
      and sys: "systems = entry # entries'"
    by (auto simp: bindE_eq_Inr split: option.splits)
  from summarize_stats(1) [OF 1] Cons.IH [OF 2] sys show ?case by simp
qed

lemma compute_labels:
  assumes "compute f fs harness rc a = Inr out"
  shows "distinct (map s_label (o_systems out))" and "sorted (map s_label (o_systems out))"
proof -
  from assms obtain bmap cs bench_meta rows where
    rt: "run_trials harness [1..a_runs a] ([], None) = Inr (cs, bench_meta)" and
    sa: "summarize_all f (a_baseline a \<noteq> []) bmap cs (sort (map fst cs)) = Inr (rows, o_systems out)"
    by (rule compute_systems)
  from distinct_run_trials [OF rt] have "distinct (map fst cs)" by simp
  with summarize_all_labels [OF sa] show "distinct (map s_label (o_systems out))" by simp
  from summarize_all_labels [OF sa] show "sorted (map s_label (o_systems out))" by simp
qed

lemma label_means_Cons:
  "label_means (s # ss) = (label_means ss)(JStr (s_label s) \<mapsto> JNum (s_mean_ms s))"
  by (simp add: label_means_def)

lemma dom_label_means: "dom (label_means ss) = (\<lambda>s. JStr (s_label s)) ` set ss"
  by (simp add: label_means_def dom_map_of_conv_image_fst image_image)

lemma baseline_mapping_payload:
  "distinct (map s_label ss) \<Longrightarrow>
     baseline_mapping (map entry_payload ss) m = Inr (m ++ label_means ss)"
proof (induction ss arbitrary: m)
  case Nil
  then show ?case by (simp add: label_means_def)
next
  case (Cons s ss)
  from Cons.prems have d: "distinct (map s_label ss)"
    and n: "JStr (s_label s) \<notin> dom (label_means ss)"
    by (auto simp: dom_label_means)
  have "baseline_mapping (map entry_payload (s # ss)) m =
      baseline_mapping (map entry_payload ss) (m(JStr (s_label s) \<mapsto> JNum (s_mean_ms s)))"
    by (simp add: entry_payload_def bindE_def)
  also have "\<dots> = Inr (m(JStr (s_label s) \<mapsto> JNum (s_mean_ms s)) ++ label_means ss)"
    by (rule Cons.IH [OF d])
  also have "m(JStr (s_label s) \<mapsto> JNum (s_mean_ms s)) ++ label_means ss = m ++ label_means (s # ss)"
    by (simp add: map_add_upd_left [OF n] label_means_Cons)
  finally show ?case .
qed

lemma load_baseline_payload:
  assumes "distinct (map s_label systems)"
  shows "load_baseline (fs(path \<mapsto> Some (summary_payload a rc commit bmeta bench systems))) path =
     Inr (label_means systems,
          \<lparr>bm_path = path, bm_label = JStr (a_label a), bm_commit = JStr commit,
           bm_timestamp = JStr (rc_timestamp rc)\<rparr>)"
  by (simp add: load_baseline_def summary_payload_def bindE_def baseline_mapping_payload [OF assms])

subsection \<open>A failing trial\<close>

lemma run_trials_append:
  "run_trials h (xs @ ys) st = bindE (run_trials h xs st) (run_trials h ys)"
proof (induction xs arbitrary: st)
  case Nil
  then show ?case by (simp add: bindE_def)
next
  case (Cons x xs)
  show ?case
    by (simp add: bindE_def Let_def Cons.IH split: sum.splits prod.splits)
qed

lemma run_trials_cong:
  "(\<forall>j \<in> set idxs. h' j = h j) \<Longrightarrow> run_trials h' idxs st = run_trials h idxs st"
  by (induction idxs arbitrary: st) (auto simp: bindE_def Let_def split: sum.splits prod.splits)

lemma run_trials_abort:
  assumes "1 \<le> i" and "i \<le> n" and "t_returncode (h i) \<noteq> 0"
  shows "run_trials h [1..n] st =
           bindE (run_trials h [1..i - 1] st) (\<lambda>_. Inl (CalledProcessError (t_returncode (h i))))"
proof -
  have split: "[1..n] = [1..i - 1] @ i # [i + 1..n]"
    using assms(1,2) by (rule upto_split3)
  have step: "run_trials h (i # [i + 1..n]) = (\<lambda>_. Inl (CalledProcessError (t_returncode (h i))))"
    using assms(3) by (intro ext) (simp add: run_once_def bindE_def)
  show ?thesis
    by (subst split) (simp only: run_trials_append step)
qed

lemma compute_abort:
  assumes "1 \<le> i" and "i \<le> a_runs a" and "t_returncode (h i) \<noteq> 0"
  shows "compute f fs h rc a =
     bindE (if a_baseline a \<noteq> [] then bindE (load_baseline fs (a_baseline a)) (\<lambda>(m, meta). Inr (m, Some meta))
            else Inr (Map.empty, None)) (\<lambda>_.
     bindE (run_trials h [1..i - 1] ([], None)) (\<lambda>_.
     Inl (CalledProcessError (t_returncode (h i)))))"
  unfolding compute_def Let_def run_trials_abort [where h = h and i = i, OF assms]
  by (auto simp: bindE_def split: sum.splits)

lemma upto_1_1: "[1..(1::int)] = [1]"
  by (simp add: upto.simps)

subsection \<open>The table on rows of equal length\<close>

text \<open>
  When every row has as many cells as the header, which is the case when every label was
  reported exactly once by every trial, the widths are the column maxima over all rows, the
  header included, and every cell is padded to the width of its column.
\<close>

lemma widen_same_length:
  "length row = length ws \<Longrightarrow>
     widen ws row = Inr (map (\<lambda>(w, cell). max w (length cell)) (zip ws row))"
  by (induction ws row rule: widen.induct) (simp_all add: bindE_def)

lemma column_widths_rect:
  "\<forall>row \<in> set rows. length row = length ws \<Longrightarrow>
     \<exists>ws'. column_widths ws rows = Inr ws' \<and> length ws' = length ws
       \<and> (\<forall>j < length ws. ws' ! j = Max (insert (ws ! j) ((\<lambda>row. length (row ! j)) ` set rows)))"
proof (induction rows arbitrary: ws)
  case Nil
  then show ?case by simp
next
  case (Cons row rows)
  let ?ws1 = "map (\<lambda>(w, cell). max w (length cell)) (zip ws row)"
  from Cons.prems have len: "length row = length ws" and rest: "\<forall>r \<in> set rows. length r = length ?ws1"
    by simp_all
  from Cons.IH [OF rest] obtain ws' where
    cw: "column_widths ?ws1 rows = Inr ws'" and l: "length ws' = length ?ws1"
    and mx: "\<forall>j < length ?ws1. ws' ! j = Max (insert (?ws1 ! j) ((\<lambda>row. length (row ! j)) ` set rows))"
    by blast
  have "column_widths ws (row # rows) = Inr ws'"
    by (simp add: widen_same_length [OF len] bindE_def cw)
  moreover have "length ws' = length ws" using l len by simp
  moreover have "ws' ! j = Max (insert (ws ! j) ((\<lambda>row. length (row ! j)) ` set (row # rows)))"
    if j: "j < length ws" for j
  proof -
    from j len have "?ws1 ! j = max (ws ! j) (length (row ! j))" by simp
    with mx j len have "ws' ! j = Max (insert (max (ws ! j) (length (row ! j))) ((\<lambda>row. length (row ! j)) ` set rows))"
      by simp
    also have "\<dots> = Max (insert (ws ! j) (insert (length (row ! j)) ((\<lambda>row. length (row ! j)) ` set rows)))"
      by (cases "rows = []") (simp_all add: max.assoc)
    finally show ?thesis by (simp add: insert_commute)
  qed
  ultimately show ?case by blast
qed

lemma length_rjust: "length (rjust w cell) = max w (length cell)"
  by (simp add: rjust_def)

lemma format_table_aligned:
  assumes "rows \<noteq> []" and "\<forall>row \<in> set rows. length row = length (hd rows)"
  shows "\<exists>widths. length widths = length (hd rows)
       \<and> (\<forall>j < length (hd rows). widths ! j = Max ((\<lambda>row. length (row ! j)) ` set rows))
       \<and> format_table rows = Inr (join [CHR 0x0A] (map (\<lambda>row. join ''  '' (padded widths row)) rows))
       \<and> (\<forall>row \<in> set rows. length (padded widths row) = length row
             \<and> (\<forall>j < length row. length (padded widths row ! j) = widths ! j))"
proof -
  let ?n = "length (hd rows)"
  from assms(2) have "\<forall>row \<in> set rows. length row = length (replicate ?n (0::nat))" by simp
  from column_widths_rect [OF this] obtain widths where
    cw: "column_widths (replicate ?n 0) rows = Inr widths" and l: "length widths = ?n"
    and mx: "\<forall>j < ?n. widths ! j = Max (insert 0 ((\<lambda>row. length (row ! j)) ` set rows))"
    by auto
  have mx': "widths ! j = Max ((\<lambda>row. length (row ! j)) ` set rows)" if "j < ?n" for j
  proof -
    have "Max (insert 0 ((\<lambda>row. length (row ! j)) ` set rows)) = Max ((\<lambda>row. length (row ! j)) ` set rows)"
      using assms(1) by (subst Max_insert) simp_all
    with mx that show ?thesis by simp
  qed
  have ft: "format_table rows = Inr (join [CHR 0x0A] (map (\<lambda>row. join ''  '' (padded widths row)) rows))"
    using assms(1) by (simp add: format_table_def cw bindE_def)
  have cells: "length (padded widths row) = length row
      \<and> (\<forall>j < length row. length (padded widths row ! j) = widths ! j)" if r: "row \<in> set rows" for row
  proof -
    from r assms(2) l have lr: "length row = length widths" by simp
    have "length (row ! j) \<le> widths ! j" if "j < length row" for j
    proof -
      from that lr l have "j < ?n" by simp
      from mx' [OF this] r show ?thesis by simp
    qed
    then show ?thesis
      by (simp add: padded_def lr length_rjust max_absorb1)
  qed
  from l mx' ft cells show ?thesis by blast
qed

lemma compute_table:
  "compute f fs harness rc a = Inr out \<Longrightarrow> format_table (o_rows out) = Inr (o_table out)"
  by (auto simp: compute_def Let_def bindE_eq_Inr)

lemma length_header: "length (header runs hb) = nat runs + (if hb then 5 else 4)"
  by (simp add: header_def)

lemma table_aligned_when_complete:
  assumes "compute f fs harness rc a = Inr out"
    and "\<forall>s \<in> set (o_systems out). length (s_runs s) = nat (a_runs a)"
  shows "\<exists>widths. length widths = length (hd (o_rows out))
       \<and> (\<forall>row \<in> set (o_rows out). length row = length (hd (o_rows out)))
       \<and> (\<forall>j < length (hd (o_rows out)).
             widths ! j = Max ((\<lambda>row. length (row ! j)) ` set (o_rows out)))
       \<and> o_table out = join [CHR 0x0A] (map (\<lambda>row. join ''  '' (padded widths row)) (o_rows out))
       \<and> (\<forall>row \<in> set (o_rows out). \<forall>j < length row. length (padded widths row ! j) = widths ! j)"
proof -
  note hd = compute_rows_length(2) [OF assms(1)]
  have ne: "o_rows out \<noteq> []"
    using assms(1) by (auto simp: compute_def Let_def bindE_eq_Inr)
  have rect: "length row = length (hd (o_rows out))" if r: "row \<in> set (o_rows out)" for row
  proof (cases "row = hd (o_rows out)")
    case True
    then show ?thesis by simp
  next
    case False
    with r ne have "row \<in> set (tl (o_rows out))" by (cases "o_rows out") auto
    with compute_rows_length(1) [OF assms(1)]
    obtain s where z: "(row, s) \<in> set (zip (tl (o_rows out)) (o_systems out))"
      by (metis in_set_impl_in_set_zip1)
    then have "s \<in> set (o_systems out)" by (rule set_zip_rightD)
    with assms(2) compute_row_shape(3) [OF assms(1) z] show ?thesis
      by (simp add: hd length_header)
  qed
  then have "\<forall>row \<in> set (o_rows out). length row = length (hd (o_rows out))" by blast
  from format_table_aligned [OF ne this] rect compute_table [OF assms(1)] show ?thesis
    by auto
qed

subsection \<open>The table on rows of unequal length\<close>

lemma fixed3_values:
  "fixed3 7 = ''7.000''" "fixed3 (13 / 2) = ''6.500''" "fixed3 0 = ''0.000''" "fixed3 (3 / 10) = ''0.300''"
  "fixed3 6 = ''6.000''"
  by (simp_all add: fixed3_def pad3_def Let_def)

lemma repeated_label_index_error:
  "main demo_formats Map.empty demo_harness_twice demo_context
          \<lparr>a_label = ''demo'', a_runs = 1, a_baseline = []\<rparr> = ([], Inl IndexError)"
  by (simp add: main_def run_defs upto_1_1 demo_harness_twice_def demo_formats_def
      py_str_int_def padded_def rjust_def)

subsection \<open>Occurrences of a pattern\<close>

lemma occurrences_Nil:
  "occurrences p [] = (case match_here p [] of Some (g, r) \<Rightarrow> [g] | None \<Rightarrow> [])"
  by (simp add: occurrences_def List.map_filter_simps split: option.splits)

lemma map_filter_map: "List.map_filter f (map g xs) = List.map_filter (\<lambda>x. f (g x)) xs"
  by (induction xs) (simp_all split: option.splits)

lemma occurrences_Cons:
  "occurrences p (c # cs) =
     (case match_here p (c # cs) of Some (g, r) \<Rightarrow> [g] | None \<Rightarrow> []) @ occurrences p cs"
proof -
  have "[0..<Suc (Suc (length cs))] = 0 # map Suc [0..<Suc (length cs)]"
    by (simp add: map_Suc_upt upt_conv_Cons del: upt_Suc)
  then show ?thesis
    by (simp add: occurrences_def map_filter_map del: upt_Suc split: option.splits)
qed

lemma search_occurrences:
  "search p s = (case occurrences p s of [] \<Rightarrow> None | g # _ \<Rightarrow> Some g)"
  by (induction s) (auto simp: occurrences_Nil occurrences_Cons split: option.splits list.splits)

lemma not_space_bracket: "\<not> is_space CHR ''[''" and not_cls_bracket: "\<not> in_cls c CHR ''[''"
  by (cases c; simp add: is_space_def is_digit_def)+

lemma match_consumed:
  "list_all bracket_free p \<Longrightarrow> match_here p s = Some (g, r) \<Longrightarrow>
     \<exists>m. s = m @ r \<and> CHR ''['' \<notin> set m"
proof (induction p s arbitrary: g rule: match_here.induct)
  case (1 s)
  then show ?case by simp
next
  case (2 l p s)
  from "2.prems" have t: "take (length l) s = l" and m: "match_here p (drop (length l) s) = Some (g, r)"
    and bf: "list_all bracket_free p" "CHR ''['' \<notin> set l"
    by (auto split: if_splits)
  from "2.IH" [OF t bf(1) m] obtain m' where "drop (length l) s = m' @ r" "CHR ''['' \<notin> set m'"
    by blast
  with t bf(2) have "s = (l @ m') @ r \<and> CHR ''['' \<notin> set (l @ m')"
    by (metis append_assoc append_take_drop_id set_append Un_iff)
  then show ?case by blast
next
  case (3 p s)
  from "3.prems" have ne: "takeWhile is_space s \<noteq> []"
    and m: "match_here p (dropWhile is_space s) = Some (g, r)" and bf: "list_all bracket_free p"
    by (auto split: if_splits)
  from "3.IH" [OF _ bf m] ne obtain m' where "dropWhile is_space s = m' @ r" "CHR ''['' \<notin> set m'"
    by blast
  moreover have "CHR ''['' \<notin> set (takeWhile is_space s)"
    using not_space_bracket by (auto dest: set_takeWhileD)
  ultimately have "s = (takeWhile is_space s @ m') @ r \<and> CHR ''['' \<notin> set (takeWhile is_space s @ m')"
    by (metis append_assoc takeWhile_dropWhile_id set_append Un_iff)
  then show ?case by blast
next
  case (4 name c p s)
  from "4.prems" obtain g' where ne: "takeWhile (in_cls c) s \<noteq> []"
    and m: "match_here p (dropWhile (in_cls c) s) = Some (g', r)" and bf: "list_all bracket_free p"
    by (auto split: if_splits)
  from "4.IH" [OF _ bf m] ne obtain m' where "dropWhile (in_cls c) s = m' @ r" "CHR ''['' \<notin> set m'"
    by blast
  moreover have "CHR ''['' \<notin> set (takeWhile (in_cls c) s)"
    using not_cls_bracket by (auto dest: set_takeWhileD)
  ultimately have "s = (takeWhile (in_cls c) s @ m') @ r
      \<and> CHR ''['' \<notin> set (takeWhile (in_cls c) s @ m')"
    by (metis append_assoc takeWhile_dropWhile_id set_append Un_iff)
  then show ?case by blast
qed

lemma anchored_match:
  assumes "anchored p" and "match_here p s = Some (g, r)"
  shows "\<exists>m. s = CHR ''['' # m @ r \<and> CHR ''['' \<notin> set m"
proof -
  from assms(1) obtain l p' where p: "p = Lit (CHR ''['' # l) # p'"
    and l: "CHR ''['' \<notin> set l" and bf: "list_all bracket_free p'"
    by (cases p rule: anchored.cases) auto
  from assms(2) have t: "take (Suc (length l)) s = CHR ''['' # l"
    and m: "match_here p' (drop (Suc (length l)) s) = Some (g, r)"
    by (auto simp: p split: if_splits)
  from match_consumed [OF bf m] obtain m' where m': "drop (Suc (length l)) s = m' @ r"
    "CHR ''['' \<notin> set m'" by blast
  have "s = (CHR ''['' # l) @ m' @ r"
    using t m'(1) by (metis append_take_drop_id)
  with l m'(2) have "s = CHR ''['' # (l @ m') @ r \<and> CHR ''['' \<notin> set (l @ m')" by simp
  then show ?thesis by blast
qed

lemma anchored_no_match:
  assumes "anchored p" and "c \<noteq> CHR ''[''"
  shows "match_here p (c # cs) = None" and "match_here p [] = None"
  using assms by (cases p rule: anchored.cases; simp)+

lemma occurrences_skip:
  "anchored p \<Longrightarrow> CHR ''['' \<notin> set m \<Longrightarrow> occurrences p (m @ r) = occurrences p r"
  by (induction m) (auto simp: occurrences_Cons anchored_no_match)

lemma finditer_occurrences:
  "anchored p \<Longrightarrow> finditer p s = occurrences p s"
proof (induction p s rule: finditer.induct)
  case (1 p)
  then show ?case by (simp add: occurrences_Nil)
next
  case (2 p c cs)
  show ?case
  proof (cases "match_here p (c # cs)")
    case None
    with 2 show ?thesis by (simp add: occurrences_Cons)
  next
    case (Some a)
    obtain g r where a: "a = (g, r)" by (cases a)
    from anchored_match [OF "2.prems" Some [unfolded a]] obtain m where
      cs: "cs = m @ r" and m: "CHR ''['' \<notin> set m" by auto
    have len: "length r < length (c # cs)" by (simp add: cs)
    have "finditer p r = occurrences p r"
      using "2.IH"(2) Some a len "2.prems" by auto
    with Some a len show ?thesis
      by (simp add: occurrences_Cons cs occurrences_skip [OF "2.prems" m])
  qed
qed

lemma anchored_patterns:
  "anchored STEP_STATS_RE" "anchored SPRITE_TOTALS_RE" "anchored SPRITE_BUCKET_AVG_RE"
  "anchored TOP_STEP_RE" "anchored TOP_MIX_RE"
  by (simp_all add: STEP_STATS_RE_def SPRITE_TOTALS_RE_def SPRITE_BUCKET_AVG_RE_def
      TOP_STEP_RE_def TOP_MIX_RE_def)

subsection \<open>The fields of a match and their conversion\<close>

lemma match_groups:
  "match_here p s = Some (g, r) \<Longrightarrow>
     list_all2 (\<lambda>(k, v) (n, c). k = n \<and> (c = Digit \<longrightarrow> valid_int v)) g (group_specs p)"
proof (induction p s arbitrary: g rule: match_here.induct)
  case (4 name c p s)
  from "4.prems" obtain g' where ne: "takeWhile (in_cls c) s \<noteq> []"
    and m: "match_here p (dropWhile (in_cls c) s) = Some (g', r)"
    and g: "g = (name, takeWhile (in_cls c) s) # g'"
    by (auto split: if_splits)
  have "c = Digit \<longrightarrow> valid_int (takeWhile (in_cls c) s)"
    using ne by (auto simp: valid_int_def list_all_iff dest: set_takeWhileD)
  with "4.IH" [OF _ m] ne g show ?case by simp
qed (auto split: if_splits)

lemma in_map_filterD: "y \<in> set (List.map_filter f xs) \<Longrightarrow> \<exists>x \<in> set xs. f x = Some y"
  by (induction xs) (auto split: option.splits)

lemma occurrences_match:
  "g \<in> set (occurrences p s) \<Longrightarrow> \<exists>s' r. match_here p s' = Some (g, r)"
proof -
  assume "g \<in> set (occurrences p s)"
  then obtain i where "map_option fst (match_here p (drop i s)) = Some g"
    unfolding occurrences_def by (blast dest: in_map_filterD)
  then show ?thesis by auto
qed

lemma occurrences_groups:
  "g \<in> set (occurrences p s) \<Longrightarrow>
     list_all2 (\<lambda>(k, v) (n, c). k = n \<and> (c = Digit \<longrightarrow> valid_int v)) g (group_specs p)"
  using match_groups occurrences_match by blast

lemma as_int_digits: "valid_int v \<Longrightarrow> \<exists>i. as_int v = Inr (PyInt i)"
  by (simp add: as_int_def py_int_def bindE_def)

lemma as_float_cases:
  "(\<not> valid_float v \<and> as_float v = Inl ValueError) \<or> (valid_float v \<and> (\<exists>x. as_float v = Inr (PyFloat x)))"
  by (simp add: as_float_def py_float_def bindE_def Let_def)

lemma step_stats_cases:
  assumes "g \<in> set (occurrences STEP_STATS_RE s)"
  shows "(bad_float_in (\<lambda>k. \<not> contains ''samples'' k) g \<and> step_stats_of g = Inl ValueError)
       \<or> (\<not> bad_float_in (\<lambda>k. \<not> contains ''samples'' k) g \<and> (\<exists>m. step_stats_of g = Inr m))"
proof -
  from occurrences_groups [OF assms] obtain v1 v2 v3 v4 v5 v6 v7 where
    g: "g = [(''mean'', v1), (''p95'', v2), (''max'', v3), (''steady'', v4),
             (''steady_samples'', v5), (''spike'', v6), (''spike_samples'', v7)]"
    and d5: "valid_int v5"
    and d7: "valid_int v7"
    by (auto simp: STEP_STATS_RE_def list_all2_Cons2)
  from as_int_digits [OF d5] as_int_digits [OF d7] obtain i5 i7 where
    i: "as_int v5 = Inr (PyInt i5)" "as_int v7 = Inr (PyInt i7)" by blast
  show ?thesis
    using as_float_cases [of v1] as_float_cases [of v2] as_float_cases [of v3]
      as_float_cases [of v4] as_float_cases [of v6]
    by (auto simp: g i step_stats_of_def bad_float_in_def bindE_def)
qed

lemma sprite_totals_ok:
  assumes "g \<in> set (occurrences SPRITE_TOTALS_RE s)"
  shows "\<exists>m. sprite_totals_of g = Inr m"
proof -
  from occurrences_groups [OF assms] obtain v1 v2 v3 v4 v5 v6 v7 where
    g: "g = [(''fast_loop'', v1), (''event'', v2), (''plain'', v3), (''bsearch'', v4),
             (''fast_bucket'', v5), (''general_bucket'', v6), (''applies'', v7)]"
    and d: "valid_int v1" "valid_int v2"
      "valid_int v3" "valid_int v4"
      "valid_int v5" "valid_int v6"
      "valid_int v7"
    by (auto simp: SPRITE_TOTALS_RE_def list_all2_Cons2)
  from d show ?thesis
    by (auto simp: g sprite_totals_of_def bindE_def as_int_def py_int_def)
qed

lemma sprite_bucket_avg_cases:
  assumes "g \<in> set (occurrences SPRITE_BUCKET_AVG_RE s)"
  shows "(bad_float_in (\<lambda>k. True) g \<and> sprite_bucket_avg_of g = Inl ValueError)
       \<or> (\<not> bad_float_in (\<lambda>k. True) g \<and> (\<exists>m. sprite_bucket_avg_of g = Inr m))"
proof -
  from occurrences_groups [OF assms] obtain v1 v2 where
    g: "g = [(''fast'', v1), (''general'', v2)]"
    by (auto simp: SPRITE_BUCKET_AVG_RE_def list_all2_Cons2)
  show ?thesis
    using as_float_cases [of v1] as_float_cases [of v2]
    by (auto simp: g sprite_bucket_avg_of_def bad_float_in_def bindE_def)
qed

lemma top_step_cases:
  assumes "g \<in> set (occurrences TOP_STEP_RE s)"
  shows "(bad_float_in (\<lambda>k. k = ''value'') g \<and> top_step_of g = Inl ValueError)
       \<or> (\<not> bad_float_in (\<lambda>k. k = ''value'') g \<and> (\<exists>m. top_step_of g = Inr m))"
proof -
  from occurrences_groups [OF assms] obtain v1 v2 where
    g: "g = [(''index'', v1), (''value'', v2)]"
    and d: "valid_int v1"
    by (auto simp: TOP_STEP_RE_def list_all2_Cons2)
  from as_int_digits [OF d] obtain i1 where i: "as_int v1 = Inr (PyInt i1)" by blast
  show ?thesis
    using as_float_cases [of v2]
    by (auto simp: g i top_step_of_def bad_float_in_def bindE_def group_def)
qed

lemma int_groups_ok:
  "(\<forall>key \<in> set keys. \<exists>v. map_of m key = Some v \<and> valid_int v) \<Longrightarrow>
     \<exists>r. int_groups m keys = Inr r"
proof (induction keys)
  case Nil
  then show ?case by simp
next
  case (Cons key keys)
  then obtain v where v: "map_of m key = Some v" "valid_int v" by auto
  from as_int_digits [OF v(2)] obtain i where "as_int v = Inr (PyInt i)" by blast
  with Cons v(1) show ?case by (auto simp: bindE_def group_def)
qed

lemma top_mix_cases:
  assumes "g \<in> set (occurrences TOP_MIX_RE s)"
  shows "(bad_float_in (\<lambda>k. k = ''value'') g \<and> top_mix_of g = Inl ValueError)
       \<or> (\<not> bad_float_in (\<lambda>k. k = ''value'') g \<and> (\<exists>m. top_mix_of g = Inr m))"
proof -
  from occurrences_groups [OF assms] obtain v1 v2 v3 v4 v5 v6 v7 v8 v9 v10 v11 v12 v13 v14 v15 v16
    v17 v18 v19 where
    g: "g = [(''index'', v1), (''value'', v2), (''fast'', v3), (''event'', v4), (''plain'', v5),
             (''bsearch'', v6), (''fast_bucket'', v7), (''general_bucket'', v8), (''applies'', v9),
             (''adv'', v10), (''zero'', v11), (''skipped'', v12), (''loop_resume'', v13),
             (''zero_duration'', v14), (''fast_path'', v15), (''slow_path'', v16),
             (''adv_ns'', v17), (''sample_ns'', v18), (''apply_ns'', v19)]"
    and d: "valid_int v1"
      "valid_int v3" "valid_int v4"
      "valid_int v5" "valid_int v6"
      "valid_int v7" "valid_int v8"
      "valid_int v9" "valid_int v10"
      "valid_int v11" "valid_int v12"
      "valid_int v13" "valid_int v14"
      "valid_int v15" "valid_int v16"
      "valid_int v17" "valid_int v18"
      "valid_int v19"
    by (auto simp: TOP_MIX_RE_def list_all2_Cons2)
  from as_int_digits [OF d(1)] obtain i1 where i: "as_int v1 = Inr (PyInt i1)" by blast
  have "\<exists>r. int_groups g [''fast'', ''event'', ''plain'', ''bsearch'', ''fast_bucket'',
                           ''general_bucket'', ''applies'', ''adv'', ''zero'', ''skipped'',
                           ''loop_resume'', ''zero_duration'', ''fast_path'', ''slow_path''] = Inr r"
    by (rule int_groups_ok) (simp add: g d)
  then obtain counts where c: "int_groups g [''fast'', ''event'', ''plain'', ''bsearch'', ''fast_bucket'',
                           ''general_bucket'', ''applies'', ''adv'', ''zero'', ''skipped'',
                           ''loop_resume'', ''zero_duration'', ''fast_path'', ''slow_path''] = Inr counts"
    by blast
  have "\<exists>r. int_groups g [''adv_ns'', ''sample_ns'', ''apply_ns''] = Inr r"
    by (rule int_groups_ok) (simp add: g d)
  then obtain times where t: "int_groups g [''adv_ns'', ''sample_ns'', ''apply_ns''] = Inr times"
    by blast
  have gi: "group g ''index'' = Inr v1" and gv: "group g ''value'' = Inr v2"
    by (simp_all add: g group_def)
  have bad: "bad_float_in (\<lambda>k. k = ''value'') g \<longleftrightarrow> \<not> valid_float v2"
    by (simp add: g bad_float_in_def)
  show ?thesis
    using as_float_cases [of v2]
    by (auto simp: bad top_mix_of_def gi gv i c t bindE_def simp del: int_groups.simps)
qed

lemma each_match_cases:
  assumes "\<forall>g \<in> set gs. (bad g \<and> conv g = Inl ValueError) \<or> (\<not> bad g \<and> (\<exists>m. conv g = Inr m))"
  shows "(list_ex bad gs \<and> each_match conv gs = Inl ValueError)
       \<or> (\<not> list_ex bad gs \<and> (\<exists>ms. each_match conv gs = Inr ms))"
  using assms by (induction gs) (auto simp: bindE_def)

lemma each_match_all2:
  "each_match conv gs = Inr ms \<Longrightarrow> list_all2 (\<lambda>g m. conv g = Inr m) gs ms"
  by (induction gs arbitrary: ms) (auto simp: bindE_eq_Inr)

subsection \<open>The parser in terms of occurrences\<close>

lemma single_shot_occurrences:
  "single_shot p conv s =
     (case occurrences p s of [] \<Rightarrow> Inr None | g # later \<Rightarrow> bindE (conv g) (\<lambda>m. Inr (Some m)))"
  by (simp add: single_shot_def search_occurrences split: list.splits)

lemma single_shot_cases:
  assumes "\<forall>g \<in> set (occurrences p s).
      (bad g \<and> conv g = Inl ValueError) \<or> (\<not> bad g \<and> (\<exists>m. conv g = Inr m))"
  shows "(list_ex bad (take 1 (occurrences p s)) \<and> single_shot p conv s = Inl ValueError)
       \<or> (\<not> list_ex bad (take 1 (occurrences p s)) \<and> (\<exists>x. single_shot p conv s = Inr x))"
  using assms
  by (cases "occurrences p s") (auto simp: single_shot_occurrences bindE_def)

lemma single_shot_ok:
  assumes "\<forall>g \<in> set (occurrences p s). \<exists>m. conv g = Inr m"
  shows "\<exists>x. single_shot p conv s = Inr x"
  using assms
  by (cases "occurrences p s") (auto simp: single_shot_occurrences bindE_def)

lemma parse_occurrences:
  "parse_profile_output stdout =
     bindE (single_shot STEP_STATS_RE step_stats_of stdout) (\<lambda>stats.
     bindE (single_shot SPRITE_TOTALS_RE sprite_totals_of stdout) (\<lambda>totals.
     bindE (single_shot SPRITE_BUCKET_AVG_RE sprite_bucket_avg_of stdout) (\<lambda>avg.
     bindE (each_match top_step_of (occurrences TOP_STEP_RE stdout)) (\<lambda>steps.
     bindE (each_match top_mix_of (occurrences TOP_MIX_RE stdout)) (\<lambda>mix.
     Inr \<lparr>per_step_stats = stats, sprite_totals = totals, sprite_bucket_avg = avg,
          top_steps = steps, top_step_mix = mix\<rparr>)))))"
  by (simp add: parse_profile_output_def finditer_occurrences anchored_patterns)

subsection \<open>Evaluating the patterns on a text\<close>

lemma match_here_Lit_Nil: "match_here (Lit [] # p) s = match_here p s"
  by simp

lemma match_here_Lit_Cons:
  "match_here (Lit (c # l) # p) (c' # s) = (if c = c' then match_here (Lit l # p) s else None)"
  by auto

lemma match_here_Lit_end: "match_here (Lit (c # l) # p) [] = None"
  by simp

lemma anchored_no_match_Nil: "anchored p \<Longrightarrow> match_here p [] = None"
  by (cases p rule: anchored.cases) simp_all

lemma finditer_skip: "anchored p \<Longrightarrow> c \<noteq> CHR ''['' \<Longrightarrow> finditer p (c # cs) = finditer p cs"
  by (simp add: anchored_no_match)

lemma finditer_end: "anchored p \<Longrightarrow> finditer p [] = []"
  by (simp add: anchored_no_match_Nil)

lemma finditer_hit:
  assumes "anchored p"
  shows "finditer p (CHR ''['' # cs) =
     (case match_here p (CHR ''['' # cs) of
        Some (g, r) \<Rightarrow> g # finditer p r
      | None \<Rightarrow> finditer p cs)"
proof (cases "match_here p (CHR ''['' # cs)")
  case None
  then show ?thesis by simp
next
  case (Some a)
  obtain g r where a: "a = (g, r)" by (cases a)
  from anchored_match [OF assms Some [unfolded a]] have "length r < length (CHR ''['' # cs)"
    by auto
  with Some a show ?thesis by simp
qed

lemma search_skip: "anchored p \<Longrightarrow> c \<noteq> CHR ''['' \<Longrightarrow> search p (c # cs) = search p cs"
  by (simp add: anchored_no_match)

lemma search_end: "anchored p \<Longrightarrow> search p [] = None"
  by (simp add: anchored_no_match_Nil)

lemma search_hit:
  "search p (CHR ''['' # cs) =
     (case match_here p (CHR ''['' # cs) of Some (g, r) \<Rightarrow> Some g | None \<Rightarrow> search p cs)"
  by simp

lemma match_here_patterns:
  "match_here STEP_STATS_RE s = match_here
     [Lit ''[animation_profile] sys_drive per-step stats: mean='', Group ''mean'' FloatChar,
      Lit '' ms p95='', Group ''p95'' FloatChar,
      Lit '' ms max='', Group ''max'' FloatChar,
      Lit '' ms steady_mean='', Group ''steady'' FloatChar,
      Lit '' ms steady_samples='', Group ''steady_samples'' Digit,
      Lit '' spike_mean='', Group ''spike'' FloatChar,
      Lit '' ms spike_samples='', Group ''spike_samples'' Digit] s"
  "match_here SPRITE_TOTALS_RE s = match_here
     [Lit ''[animation_profile] anim_stats sprite totals: fast_loop='', Group ''fast_loop'' Digit,
      Lit '' event='', Group ''event'' Digit,
      Lit '' plain='', Group ''plain'' Digit,
      Lit '' bsearch='', Group ''bsearch'' Digit,
      Lit '' fast_bucket='', Group ''fast_bucket'' Digit,
      Lit '' general_bucket='', Group ''general_bucket'' Digit,
      Lit '' applies='', Group ''applies'' Digit] s"
  "match_here SPRITE_BUCKET_AVG_RE s = match_here
     [Lit ''[animation_profile] anim_stats sprite bucket avg: fast='', Group ''fast'' FloatChar,
      Lit '' entities/frame general='', Group ''general'' FloatChar,
      Lit '' entities/frame''] s"
  "match_here TOP_STEP_RE s = match_here
     [Lit ''[animation_profile]'', Space, Lit ''step'', Space, Group ''index'' Digit,
      Space, Lit ''->'', Space, Group ''value'' FloatChar, Lit '' ms''] s"
  "match_here TOP_MIX_RE s = match_here
     [Lit ''[animation_profile]'', Space, Lit ''step'', Space, Group ''index'' Digit,
      Space, Lit ''->'', Space, Group ''value'' FloatChar,
      Lit '' ms | sprite(fast='', Group ''fast'' Digit,
      Lit '' event='', Group ''event'' Digit,
      Lit '' plain='', Group ''plain'' Digit,
      Lit '' bsearch='', Group ''bsearch'' Digit,
      Lit '' fast_bucket='', Group ''fast_bucket'' Digit,
      Lit '' general_bucket='', Group ''general_bucket'' Digit,
      Lit '' applies='', Group ''applies'' Digit,
      Lit '') transform(adv='', Group ''adv'' Digit,
      Lit '' zero='', Group ''zero'' Digit,
      Lit '' skipped='', Group ''skipped'' Digit,
      Lit '' loop_resume='', Group ''loop_resume'' Digit,
      Lit '' zero_duration='', Group ''zero_duration'' Digit,
      Lit '' fast='', Group ''fast_path'' Digit,
      Lit '' slow='', Group ''slow_path'' Digit,
      Lit '') time_ns(adv='', Group ''adv_ns'' Digit,
      Lit '' sample='', Group ''sample_ns'' Digit,
      Lit '' apply='', Group ''apply_ns'' Digit,
      Lit '')''] s"
  by (simp_all only: STEP_STATS_RE_def SPRITE_TOTALS_RE_def SPRITE_BUCKET_AVG_RE_def
      TOP_STEP_RE_def TOP_MIX_RE_def)

lemmas eval_rules = match_here_Lit_Nil match_here_Lit_Cons match_here_Lit_end finditer_skip
  finditer_end finditer_hit search_skip search_end search_hit anchored_patterns
  is_space_def is_digit_def match_here_patterns

lemma demo_occurrences:
  "occurrences STEP_STATS_RE demo_stdout =
     [[(''mean'', ''0.25''), (''p95'', ''0.5''), (''max'', ''1.75''), (''steady'', ''0.2''),
       (''steady_samples'', ''230''), (''spike'', ''1.5''), (''spike_samples'', ''10'')],
      [(''mean'', ''9.5''), (''p95'', ''9.5''), (''max'', ''9.5''), (''steady'', ''9.5''),
       (''steady_samples'', ''9''), (''spike'', ''9.5''), (''spike_samples'', ''9'')]]"
  "occurrences SPRITE_TOTALS_RE demo_stdout = []"
  "occurrences SPRITE_BUCKET_AVG_RE demo_stdout = []"
  "occurrences TOP_STEP_RE demo_stdout =
     [[(''index'', ''17''), (''value'', ''1.75'')], [(''index'', ''3''), (''value'', ''1.5'')]]"
  "occurrences TOP_MIX_RE demo_stdout =
     [[(''index'', ''3''), (''value'', ''1.5''), (''fast'', ''1''), (''event'', ''2''),
       (''plain'', ''3''), (''bsearch'', ''4''), (''fast_bucket'', ''5''),
       (''general_bucket'', ''6''), (''applies'', ''7''), (''adv'', ''8''), (''zero'', ''9''),
       (''skipped'', ''10''), (''loop_resume'', ''11''), (''zero_duration'', ''12''),
       (''fast_path'', ''13''), (''slow_path'', ''14''), (''adv_ns'', ''15''),
       (''sample_ns'', ''16''), (''apply_ns'', ''17'')]]"
  unfolding finditer_occurrences [OF anchored_patterns(1), symmetric]
    finditer_occurrences [OF anchored_patterns(2), symmetric]
    finditer_occurrences [OF anchored_patterns(3), symmetric]
    finditer_occurrences [OF anchored_patterns(4), symmetric]
    finditer_occurrences [OF anchored_patterns(5), symmetric]
  by (simp_all add: demo_stdout_def eval_rules
      del: match_here.simps(2) finditer.simps search.simps)

lemma demo_bad_occurrences:
  "occurrences TOP_STEP_RE demo_stdout_bad = [[(''index'', ''3''), (''value'', ''1.2.3'')]]"
  unfolding finditer_occurrences [OF anchored_patterns(4), symmetric]
  by (simp add: demo_stdout_bad_def eval_rules
      del: match_here.simps(2) finditer.simps search.simps)

lemmas conv_defs = step_stats_of_def sprite_totals_of_def sprite_bucket_avg_of_def top_step_of_def
  top_mix_of_def group_def as_int_def as_float_def bindE_def py_float_def py_int_def
  valid_float_def valid_int_def is_digit_def digits_val_def digit_val_def Let_def

lemma demo_parse:
  "parse_profile_output demo_stdout =
     Inr \<lparr>per_step_stats =
            Some [(''mean'', PyFloat (1 / 4)), (''p95'', PyFloat (1 / 2)), (''max'', PyFloat (7 / 4)),
                  (''steady'', PyFloat (1 / 5)), (''steady_samples'', PyInt 230),
                  (''spike'', PyFloat (3 / 2)), (''spike_samples'', PyInt 10)],
          sprite_totals = None, sprite_bucket_avg = None,
          top_steps = [[(''step'', PyInt 17), (''ms'', PyFloat (7 / 4))],
                       [(''step'', PyInt 3), (''ms'', PyFloat (3 / 2))]],
          top_step_mix =
            [[(''step'', PyInt 3), (''ms'', PyFloat (3 / 2)), (''fast'', PyInt 1),
              (''event'', PyInt 2), (''plain'', PyInt 3), (''bsearch'', PyInt 4),
              (''fast_bucket'', PyInt 5), (''general_bucket'', PyInt 6), (''applies'', PyInt 7),
              (''adv'', PyInt 8), (''zero'', PyInt 9), (''skipped'', PyInt 10),
              (''loop_resume'', PyInt 11), (''zero_duration'', PyInt 12),
              (''fast_path'', PyInt 13), (''slow_path'', PyInt 14), (''adv_ns'', PyInt 15),
              (''sample_ns'', PyInt 16), (''apply_ns'', PyInt 17)]]\<rparr>"
  by (simp add: parse_occurrences single_shot_occurrences demo_occurrences conv_defs)

section \<open>The claims\<close>

text \<open>
  Claim C1. In a run that completes, every summary of the payload holds exactly the values
  collected for its label over the trials, in trial order, and they are not empty; its
  \<open>mean_ms\<close> is their arithmetic mean; its \<open>stddev_ms\<close> is 0 for fewer than two values and their
  population standard deviation otherwise. For the values 10, 20, 30 the mean is 20 and the
  deviation is \<open>sqrt (200 / 3)\<close>, within a thousandth of 8.165.
\<close>

theorem finalize_mean_stddev:
  assumes "compute f fs harness rc a = Inr out" and "s \<in> set (o_systems out)"
  shows "s_runs s = collected harness [1..a_runs a] (s_label s) \<and> s_runs s \<noteq> []
       \<and> s_mean_ms s = arithmetic_mean (s_runs s)
       \<and> s_stddev_ms s = (if length (s_runs s) < 2 then 0 else population_stddev (s_runs s))
       \<and> (s_runs s = [10, 20, 30] \<longrightarrow>
            s_mean_ms s = 20 \<and> s_stddev_ms s = sqrt (200 / 3)
            \<and> \<bar>s_stddev_ms s - 8165 / 1000\<bar> < 1 / 1000)"
proof -
  from assms(1) obtain bmap cs bench_meta rows where
    rt: "run_trials harness [1..a_runs a] ([], None) = Inr (cs, bench_meta)" and
    sa: "summarize_all f (a_baseline a \<noteq> []) bmap cs (sort (map fst cs)) = Inr (rows, o_systems out)"
    by (rule compute_systems)
  from summarize_all_member [OF sa assms(2)] obtain label slot row where
    slot: "map_of cs label = Some slot" and
    sm: "summarize f (a_baseline a \<noteq> []) bmap label slot = Inr (row, s)"
    by blast
  note st = summarize_stats [OF sm]
  have "runs_of cs label = collected harness [1..a_runs a] label"
    using runs_of_run_trials [OF rt, of label] by (simp add: runs_of_def)
  with slot have runs: "s_runs s = collected harness [1..a_runs a] (s_label s)"
    by (simp add: st runs_of_def)
  have ne: "s_runs s \<noteq> []" by (simp add: st)
  have mean: "s_mean_ms s = arithmetic_mean (s_runs s)" by (simp add: st)
  have sd: "s_stddev_ms s = (if length (s_runs s) < 2 then 0 else population_stddev (s_runs s))"
    by (simp add: st)
  have ex: "s_mean_ms s = 20 \<and> s_stddev_ms s = sqrt (200 / 3)
       \<and> \<bar>s_stddev_ms s - 8165 / 1000\<bar> < 1 / 1000" if "s_runs s = [10, 20, 30]"
    using that mean sd population_stddev_10_20_30 by (simp add: arithmetic_mean_def)
  from runs ne mean sd ex show ?thesis by blast
qed

text \<open>
  Three trials that report \<open>sprite_fast\<close> with 10, 20 and 30.
\<close>

theorem finalize_mean_stddev_witness:
  "\<exists>out s. compute demo_formats Map.empty demo_harness_3 demo_context
        \<lparr>a_label = ''demo'', a_runs = 3, a_baseline = []\<rparr> = Inr out
      \<and> s \<in> set (o_systems out) \<and> s_runs s = [10, 20, 30]
      \<and> s_mean_ms s = 20 \<and> \<bar>s_stddev_ms s - 8165 / 1000\<bar> < 1 / 1000"
proof -
  from demo_3_systems obtain out s where
    c: "compute demo_formats Map.empty demo_harness_3 demo_context
        \<lparr>a_label = ''demo'', a_runs = 3, a_baseline = []\<rparr> = Inr out"
    and s: "o_systems out = [s]" and r: "s_runs s = [10, 20, 30]"
    by blast
  from s have m: "s \<in> set (o_systems out)" by simp
  from finalize_mean_stddev [OF c m] r c m show ?thesis by blast
qed

text \<open>
  Claim C2. In a run with a baseline, for a label that the loaded baseline map sends to a
  number \<open>b\<close>, the summary's \<open>delta_vs_baseline_ms\<close> is the current mean minus \<open>b\<close>, sign kept,
  and the payload entry carries it (baseline 5 and mean 6.5 give 1.5). For a label the map
  lacks, the summary has no delta (so not the number 0), the payload entry has no
  \<open>delta_vs_baseline_ms\<close> key, and the delta cell of the label's row is \<open>n/a\<close>.
\<close>

theorem delta_vs_baseline:
  assumes "compute f fs harness rc a = Inr out"
    and "a_baseline a \<noteq> []"
    and "load_baseline fs (a_baseline a) = Inr (baseline_map, meta)"
    and "(row, s) \<in> set (zip (tl (o_rows out)) (o_systems out))"
  shows "(\<forall>b. baseline_map (JStr (s_label s)) = Some (JNum b) \<longrightarrow>
            s_delta_vs_baseline_ms s = Some (s_mean_ms s - b)
          \<and> py_getitem (entry_payload s) ''delta_vs_baseline_ms'' = Inr (JNum (s_mean_ms s - b)))
       \<and> (baseline_map (JStr (s_label s)) = Some (JNum 5) \<and> s_mean_ms s = 13 / 2 \<longrightarrow>
            s_delta_vs_baseline_ms s = Some (3 / 2))
       \<and> (baseline_map (JStr (s_label s)) = None \<longrightarrow>
            s_delta_vs_baseline_ms s = None \<and> s_delta_vs_baseline_ms s \<noteq> Some 0
          \<and> py_getitem (entry_payload s) ''delta_vs_baseline_ms'' = Inl (KeyError ''delta_vs_baseline_ms'')
          \<and> last (butlast row) = ''n/a'')"
proof -
  from assms(1,4) obtain dc bmap where
    b: "(a_baseline a = [] \<and> bmap = Map.empty) \<or>
     (a_baseline a \<noteq> [] \<and> (\<exists>meta. load_baseline fs (a_baseline a) = Inr (bmap, meta)))"
    and d: "delta_of f (a_baseline a \<noteq> []) bmap (s_label s) (s_mean_ms s) = Inr (dc, s_delta_vs_baseline_ms s)"
    and r: "row = [s_label s] @ map (fmt3 f) (s_runs s) @ [fmt3 f (s_mean_ms s), fmt3 f (s_stddev_ms s)]
             @ (if a_baseline a \<noteq> [] then [if dc \<noteq> [] then dc else ''n/a''] else [])
             @ [fmt3 f (s_budget_ms s)]"
    by (rule compute_zip)
  from b assms(2,3) have bmap: "bmap = baseline_map" by auto
  have cell: "last (butlast row) = (if dc \<noteq> [] then dc else ''n/a'')"
    using assms(2) by (subst r) (simp add: butlast_append)
  have num: "s_delta_vs_baseline_ms s = Some (s_mean_ms s - b)"
    if "baseline_map (JStr (s_label s)) = Some (JNum b)" for b
    using d that assms(2) by (simp add: delta_of_def bmap)
  have none: "s_delta_vs_baseline_ms s = None \<and> dc = ''n/a''"
    if "baseline_map (JStr (s_label s)) = None"
    using d that assms(2) by (auto simp: delta_of_def bmap)
  show ?thesis
    using num none cell by (auto simp: entry_payload_delta)
qed


text \<open>
  Two trials with the means 6.5 and 7, against a baseline that has \<open>sprite_fast\<close> at 5 and lacks
  \<open>sprite_general\<close>.
\<close>

theorem delta_vs_baseline_witness:
  "\<exists>out baseline_map meta row s row' s'.
      compute demo_formats demo_fs demo_harness_2 demo_context
          \<lparr>a_label = ''demo'', a_runs = 2, a_baseline = ''perf/before.json''\<rparr> = Inr out
    \<and> load_baseline demo_fs ''perf/before.json'' = Inr (baseline_map, meta)
    \<and> (row, s) \<in> set (zip (tl (o_rows out)) (o_systems out))
    \<and> baseline_map (JStr (s_label s)) = Some (JNum 5) \<and> s_mean_ms s = 13 / 2
    \<and> s_delta_vs_baseline_ms s = Some (3 / 2)
    \<and> (row', s') \<in> set (zip (tl (o_rows out)) (o_systems out))
    \<and> baseline_map (JStr (s_label s')) = None
    \<and> s_delta_vs_baseline_ms s' = None \<and> last (butlast row') = ''n/a''"
proof -
  obtain out r1 r2 s1 s2 where
    c: "compute demo_formats demo_fs demo_harness_2 demo_context
          \<lparr>a_label = ''demo'', a_runs = 2, a_baseline = ''perf/before.json''\<rparr> = Inr out"
    and z: "zip (tl (o_rows out)) (o_systems out) = [(r1, s1), (r2, s2)]"
    and s1: "s_label s1 = ''sprite_fast''" "s_mean_ms s1 = 13 / 2"
    and s2: "s_label s2 = ''sprite_general''"
    by (rule demo_2_run)
  have b1: "[JStr ''sprite_fast'' \<mapsto> JNum 5] (JStr (s_label s1)) = Some (JNum 5)"
    and b2: "[JStr ''sprite_fast'' \<mapsto> JNum 5] (JStr (s_label s2)) = None"
    by (simp_all add: s1 s2)
  have m1: "(r1, s1) \<in> set (zip (tl (o_rows out)) (o_systems out))"
    and m2: "(r2, s2) \<in> set (zip (tl (o_rows out)) (o_systems out))"
    by (simp_all add: z)
  have nb: "a_baseline \<lparr>a_label = ''demo'', a_runs = 2, a_baseline = ''perf/before.json''\<rparr> \<noteq> []"
    by simp
  have lb: "load_baseline demo_fs
      (a_baseline \<lparr>a_label = ''demo'', a_runs = 2, a_baseline = ''perf/before.json''\<rparr>) =
     Inr ([JStr ''sprite_fast'' \<mapsto> JNum 5],
          \<lparr>bm_path = ''perf/before.json'', bm_label = JStr ''before'', bm_commit = JStr ''0a1b2c'',
           bm_timestamp = JNull\<rparr>)"
    by (simp add: demo_load_baseline)
  from delta_vs_baseline [OF c nb lb m1] b1 s1
  have d1: "s_delta_vs_baseline_ms s1 = Some (3 / 2)" by simp
  from delta_vs_baseline [OF c nb lb m2] b2
  have d2: "s_delta_vs_baseline_ms s2 = None \<and> last (butlast r2) = ''n/a''" by simp
  from c demo_load_baseline m1 b1 s1 d1 m2 b2 d2 show ?thesis by blast
qed

text \<open>
  Claim C5. In a run without a baseline no summary has a delta and no payload entry has a
  \<open>delta_vs_baseline_ms\<close> key; the header is \<open>system, run1, ..., runN, mean, stddev, budget\<close>, and
  every row is the label, the run values, the mean, the deviation and the budget, with no delta
  cell. In every run the header has the \<open>delta\<close> cell exactly when a baseline was given, and every
  row has one cell more exactly then: the column is decided by the run, not by the row.
\<close>

theorem no_baseline_no_delta:
  assumes "compute f fs harness rc a = Inr out"
  shows "(a_baseline a = [] \<longrightarrow>
            (\<forall>s \<in> set (o_systems out).
                s_delta_vs_baseline_ms s = None
              \<and> py_getitem (entry_payload s) ''delta_vs_baseline_ms'' = Inl (KeyError ''delta_vs_baseline_ms''))
          \<and> hd (o_rows out) =
              [''system''] @ map (\<lambda>i. ''run'' @ py_str_int i) [1..a_runs a] @ [''mean'', ''stddev'', ''budget'']
          \<and> (\<forall>(row, s) \<in> set (zip (tl (o_rows out)) (o_systems out)).
                row = [s_label s] @ map (fmt3 f) (s_runs s)
                        @ [fmt3 f (s_mean_ms s), fmt3 f (s_stddev_ms s), fmt3 f (s_budget_ms s)]))
       \<and> (''delta'' \<in> set (hd (o_rows out)) \<longleftrightarrow> a_baseline a \<noteq> [])
       \<and> length (tl (o_rows out)) = length (o_systems out)
       \<and> (\<forall>(row, s) \<in> set (zip (tl (o_rows out)) (o_systems out)).
             length row = length (s_runs s) + (if a_baseline a = [] then 4 else 5))"
proof -
  note len = compute_rows_length [OF assms]
  have summ: "s_delta_vs_baseline_ms s = None
      \<and> py_getitem (entry_payload s) ''delta_vs_baseline_ms'' = Inl (KeyError ''delta_vs_baseline_ms'')"
    if nb: "a_baseline a = []" and s: "s \<in> set (o_systems out)" for s
  proof -
    from s len(1) obtain row where "(row, s) \<in> set (zip (tl (o_rows out)) (o_systems out))"
      by (metis in_set_impl_in_set_zip2)
    from compute_row_shape(1) [OF assms this nb] show ?thesis
      by (simp add: entry_payload_delta)
  qed
  have hdr: "hd (o_rows out) =
      [''system''] @ map (\<lambda>i. ''run'' @ py_str_int i) [1..a_runs a] @ [''mean'', ''stddev'', ''budget'']"
    if "a_baseline a = []"
    using that len(2) by (simp add: header_no_baseline)
  have rows: "row = [s_label s] @ map (fmt3 f) (s_runs s)
        @ [fmt3 f (s_mean_ms s), fmt3 f (s_stddev_ms s), fmt3 f (s_budget_ms s)]"
    if "a_baseline a = []" and "(row, s) \<in> set (zip (tl (o_rows out)) (o_systems out))" for row s
    using compute_row_shape(2) [OF assms that(2) that(1)] .
  have toggle: "''delta'' \<in> set (hd (o_rows out)) \<longleftrightarrow> a_baseline a \<noteq> []"
    by (simp add: len(2) delta_in_header)
  have lens: "length row = length (s_runs s) + (if a_baseline a = [] then 4 else 5)"
    if "(row, s) \<in> set (zip (tl (o_rows out)) (o_systems out))" for row s
    using compute_row_shape(3) [OF assms that] .
  show ?thesis
    using summ hdr rows toggle len(1) lens by blast
qed

text \<open>
  The three trials again, run without a baseline.
\<close>

theorem no_baseline_no_delta_witness:
  "\<exists>out s. compute demo_formats Map.empty demo_harness_3 demo_context
        \<lparr>a_label = ''demo'', a_runs = 3, a_baseline = []\<rparr> = Inr out
      \<and> hd (o_rows out) = [''system'', ''run1'', ''run2'', ''run3'', ''mean'', ''stddev'', ''budget'']
      \<and> ''delta'' \<notin> set (hd (o_rows out))
      \<and> s \<in> set (o_systems out) \<and> s_delta_vs_baseline_ms s = None
      \<and> py_getitem (entry_payload s) ''delta_vs_baseline_ms'' = Inl (KeyError ''delta_vs_baseline_ms'')"
proof -
  from demo_3_systems obtain out s where
    c: "compute demo_formats Map.empty demo_harness_3 demo_context
        \<lparr>a_label = ''demo'', a_runs = 3, a_baseline = []\<rparr> = Inr out"
    and s: "o_systems out = [s]"
    by blast
  from s have m: "s \<in> set (o_systems out)" by simp
  have h: "hd (o_rows out) = [''system'', ''run1'', ''run2'', ''run3'', ''mean'', ''stddev'', ''budget'']"
    using no_baseline_no_delta [OF c] by (simp add: upto_1_3 py_str_int_def)
  from no_baseline_no_delta [OF c]
  have "''delta'' \<in> set (hd (o_rows out)) \<longleftrightarrow>
      a_baseline \<lparr>a_label = ''demo'', a_runs = 3, a_baseline = []\<rparr> \<noteq> []"
    by blast
  then have d: "''delta'' \<notin> set (hd (o_rows out))" by simp
  have n: "s_delta_vs_baseline_ms s = None
      \<and> py_getitem (entry_payload s) ''delta_vs_baseline_ms'' = Inl (KeyError ''delta_vs_baseline_ms'')"
    using no_baseline_no_delta [OF c] m by simp
  from c h d m n show ?thesis by blast
qed

text \<open>
  Claim C10. When the \<open>systems\<close> list of a baseline artefact holds an entry with a label and no
  \<open>mean_ms\<close>, and no later entry has that label, the loaded map sends the label to the number 0;
  the delta of that label is then the number \<open>mean - 0\<close>, in the comparison and in every run that
  loads this baseline, and not the marker of a missing baseline mean.
\<close>

theorem missing_mean_defaults_to_zero:
  assumes "fs path = Some (Some (JObj kvs))"
    and "map_of kvs ''systems'' = Some (JList (es1 @ JObj flds # es2))"
    and "map_of flds ''label'' = Some (JStr l)"
    and "map_of flds ''mean_ms'' = None"
    and "\<forall>e \<in> set es2. py_getitem e ''label'' \<noteq> Inr (JStr l)"
    and "load_baseline fs path = Inr (baseline_map, meta)"
  shows "baseline_map (JStr l) = Some (JNum 0)
       \<and> delta_of f True baseline_map l mean_val = Inr (fmt3s f (mean_val - 0), Some (mean_val - 0))
       \<and> (\<forall>harness rc a out s.
             a_baseline a = path \<and> path \<noteq> [] \<and> compute f fs harness rc a = Inr out
             \<and> s \<in> set (o_systems out) \<and> s_label s = l
             \<longrightarrow> s_delta_vs_baseline_ms s = Some (s_mean_ms s - 0))"
proof -
  from assms(1,6) obtain systems entries where
    "py_get (JObj kvs) ''systems'' (JList []) = Inr systems"
    "py_iter systems = Inr entries"
    and bm: "baseline_mapping entries Map.empty = Inr baseline_map"
    by (rule load_baseline_obj)
  with assms(2) have entries: "entries = es1 @ JObj flds # es2" by auto
  from bm obtain m1 where m1: "baseline_mapping es1 Map.empty = Inr m1"
    and rest: "baseline_mapping (JObj flds # es2) m1 = Inr baseline_map"
    by (auto simp: entries baseline_mapping_append bindE_eq_Inr)
  from rest assms(3,4) have es2: "baseline_mapping es2 (m1(JStr l \<mapsto> JNum 0)) = Inr baseline_map"
    by (simp add: bindE_def)
  from baseline_mapping_other [OF es2 assms(5)]
  have zero: "baseline_map (JStr l) = Some (JNum 0)" by simp
  then have d: "delta_of f True baseline_map l mv = Inr (fmt3s f (mv - 0), Some (mv - 0))" for mv
    by (simp add: delta_of_def)
  have run: "s_delta_vs_baseline_ms s = Some (s_mean_ms s - 0)"
    if "a_baseline a = path" "path \<noteq> []" "compute f fs harness rc a = Inr out"
      "s \<in> set (o_systems out)" "s_label s = l" for harness rc a out s
  proof -
    from that(3,4) obtain dc bmap where
      b: "(a_baseline a = [] \<and> bmap = Map.empty) \<or>
          (a_baseline a \<noteq> [] \<and> (\<exists>meta. load_baseline fs (a_baseline a) = Inr (bmap, meta)))"
      and dl: "delta_of f (a_baseline a \<noteq> []) bmap (s_label s) (s_mean_ms s) = Inr (dc, s_delta_vs_baseline_ms s)"
      by (rule compute_delta)
    from b that(1,2) assms(6) have "bmap = baseline_map" by auto
    with dl that d [of "s_mean_ms s"] show ?thesis by simp
  qed
  from zero d [of mean_val] run show ?thesis by blast
qed

text \<open>
  A run against the baseline whose entry for \<open>sprite_fast\<close> has no \<^verbatim>\<open>mean_ms\<close>: the delta is the mean itself.
\<close>

theorem missing_mean_defaults_to_zero_witness:
  "\<exists>baseline_map meta out s.
       load_baseline demo_fs_no_mean ''perf/old.json'' = Inr (baseline_map, meta)
     \<and> baseline_map (JStr ''sprite_fast'') = Some (JNum 0)
     \<and> compute demo_formats demo_fs_no_mean demo_harness_2 demo_context
          \<lparr>a_label = ''demo'', a_runs = 2, a_baseline = ''perf/old.json''\<rparr> = Inr out
     \<and> s \<in> set (o_systems out) \<and> s_label s = ''sprite_fast'' \<and> s_mean_ms s = 13 / 2
     \<and> s_delta_vs_baseline_ms s = Some (13 / 2)"
proof -
  have fs: "demo_fs_no_mean ''perf/old.json'' =
      Some (Some (JObj [(''systems'', JList [JObj [(''label'', JStr ''sprite_fast'')]])]))"
    by (simp add: demo_fs_no_mean_def)
  have sys: "map_of [(''systems'', JList [JObj [(''label'', JStr ''sprite_fast'')]])] ''systems'' =
      Some (JList ([] @ JObj [(''label'', JStr ''sprite_fast'')] # []))"
    and l: "map_of [(''label'', JStr ''sprite_fast'')] ''label'' = Some (JStr ''sprite_fast'')"
    and m: "map_of [(''label'', JStr ''sprite_fast'')] ''mean_ms'' = None"
    and e: "\<forall>e \<in> set []. py_getitem e ''label'' \<noteq> Inr (JStr ''sprite_fast'')"
    by simp_all
  obtain baseline_map meta where
    lb: "load_baseline demo_fs_no_mean ''perf/old.json'' = Inr (baseline_map, meta)"
    by (simp add: load_baseline_def demo_fs_no_mean_def bindE_def)
  from demo_no_mean_eval obtain out where
    c: "compute demo_formats demo_fs_no_mean demo_harness_2 demo_context
          \<lparr>a_label = ''demo'', a_runs = 2, a_baseline = ''perf/old.json''\<rparr> = Inr out"
    and n: "map s_label (o_systems out) = [''sprite_fast'', ''sprite_general'']"
    and mm: "map s_mean_ms (o_systems out) = [13 / 2, 7]"
    by (auto split: sum.splits)
  from n obtain s s' where ss: "o_systems out = [s, s']" by auto
  with n mm have s: "s \<in> set (o_systems out)" "s_label s = ''sprite_fast''" "s_mean_ms s = 13 / 2"
    by simp_all
  note t = missing_mean_defaults_to_zero [OF fs sys l m e lb, of demo_formats 0]
  from t have z: "baseline_map (JStr ''sprite_fast'') = Some (JNum 0)" by blast
  from t have "\<forall>harness rc a out s.
             a_baseline a = ''perf/old.json'' \<and> ''perf/old.json'' \<noteq> []
             \<and> compute demo_formats demo_fs_no_mean harness rc a = Inr out
             \<and> s \<in> set (o_systems out) \<and> s_label s = ''sprite_fast''
             \<longrightarrow> s_delta_vs_baseline_ms s = Some (s_mean_ms s - 0)"
    by blast
  from this [rule_format, of "\<lparr>a_label = ''demo'', a_runs = 2, a_baseline = ''perf/old.json''\<rparr>"
      demo_harness_2 demo_context out s] c s
  have "s_delta_vs_baseline_ms s = Some (s_mean_ms s - 0)"
    by simp
  with s have d: "s_delta_vs_baseline_ms s = Some (13 / 2)" by simp
  from lb z c s d show ?thesis by blast
qed

text \<open>
  Claim C7, as amended. \<^verbatim>\<open>load_baseline\<close> raises \<^verbatim>\<open>FileNotFoundError\<close> exactly when nothing
  exists at the path. For an existing artefact that is a JSON object whose \<^verbatim>\<open>systems\<close> key is
  absent or holds the empty list, it returns the empty map.
\<close>

theorem load_baseline_not_found_or_empty:
  "(load_baseline fs path = Inl FileNotFoundError \<longleftrightarrow> fs path = None)
   \<and> (fs path = Some (Some (JObj kvs))
        \<and> (map_of kvs ''systems'' = None \<or> map_of kvs ''systems'' = Some (JList []))
      \<longrightarrow> (\<exists>meta. load_baseline fs path = Inr (Map.empty, meta)))"
proof (intro conjI impI)
  show "load_baseline fs path = Inl FileNotFoundError \<longleftrightarrow> fs path = None"
    by (rule load_baseline_not_found_iff)
next
  assume a: "fs path = Some (Some (JObj kvs))
        \<and> (map_of kvs ''systems'' = None \<or> map_of kvs ''systems'' = Some (JList []))"
  then have sys: "py_get (JObj kvs) ''systems'' (JList []) = Inr (JList [])" by auto
  from py_get_obj [of kvs "''label''" JNull] obtain l
    where l: "py_get (JObj kvs) ''label'' JNull = Inr l" by auto
  from py_get_obj [of kvs "''commit''" JNull] obtain c
    where c: "py_get (JObj kvs) ''commit'' JNull = Inr c" by auto
  from py_get_obj [of kvs "''timestamp''" JNull] obtain t
    where t: "py_get (JObj kvs) ''timestamp'' JNull = Inr t" by auto
  note g = l c t
  from a sys g show "\<exists>meta. load_baseline fs path = Inr (Map.empty, meta)"
    by (simp add: load_baseline_def bindE_def)
qed

text \<open>
  A file system with one artefact that has no \<^verbatim>\<open>systems\<close> key: a path that is not there, and the
  artefact.
\<close>

theorem load_baseline_not_found_or_empty_witness:
  "load_baseline [''perf/empty.json'' \<mapsto> Some (JObj [(''label'', JStr ''none'')])] ''perf/gone.json''
     = Inl FileNotFoundError
   \<and> (\<exists>meta. load_baseline [''perf/empty.json'' \<mapsto> Some (JObj [(''label'', JStr ''none'')])]
        ''perf/empty.json'' = Inr (Map.empty, meta))"
proof -
  let ?fs = "[''perf/empty.json'' \<mapsto> Some (JObj [(''label'', JStr ''none'')])]"
  have 1: "?fs ''perf/gone.json'' = None" by simp
  have 2: "?fs ''perf/empty.json'' = Some (Some (JObj [(''label'', JStr ''none'')]))
      \<and> (map_of [(''label'', JStr ''none'')] ''systems'' = None
          \<or> map_of [(''label'', JStr ''none'')] ''systems'' = Some (JList []))"
    by simp
  from load_baseline_not_found_or_empty [of ?fs "''perf/gone.json''"] 1
  have a: "load_baseline ?fs ''perf/gone.json'' = Inl FileNotFoundError" by blast
  from load_baseline_not_found_or_empty [of ?fs "''perf/empty.json''" "[(''label'', JStr ''none'')]"] 2
  have b: "\<exists>meta. load_baseline ?fs ''perf/empty.json'' = Inr (Map.empty, meta)" by blast
  from a b show ?thesis by blast
qed

text \<open>
  Claim C7 as stated fails: an existing artefact whose \<^verbatim>\<open>systems\<close> list holds one entry without a
  label has no per-label entry, and loading it raises \<^verbatim>\<open>KeyError\<close> where the claim has the empty
  map.
\<close>

theorem load_baseline_unlabelled_counterexample:
  "demo_fs_unlabelled ''perf/odd.json'' = Some (Some demo_unlabelled)
   \<and> per_label_entries demo_unlabelled = []
   \<and> load_baseline demo_fs_unlabelled ''perf/odd.json'' = Inl (KeyError ''label'')"
  by (simp add: demo_fs_unlabelled_def demo_unlabelled_def load_baseline_def bindE_def)

text \<open>
  Claim C8. When \<^verbatim>\<open>main\<close> returns, the JSON artefact it wrote is the payload of the run; placed
  at any path of any file system and read back by \<^verbatim>\<open>load_baseline\<close>, it yields exactly the map
  from each summary's label to its \<open>mean_ms\<close> (the labels of a payload are distinct), together
  with the run's label as provenance. \<^verbatim>\<open>json.dumps\<close> followed by \<^verbatim>\<open>json.loads\<close> is taken as the
  identity on the payload.
\<close>

theorem payload_round_trip:
  assumes "main f fs harness rc a = (files, Inr r)"
  shows "\<exists>out meta. compute f fs harness rc a = Inr out
       \<and> files = [(a_label a @ ''.txt'', TextFile (o_table out)),
                  (a_label a @ ''.json'', JsonFile (o_payload out))]
       \<and> distinct (map s_label (o_systems out))
       \<and> load_baseline (fs'(path \<mapsto> Some (o_payload out))) path = Inr (label_means (o_systems out), meta)
       \<and> bm_label meta = JStr (a_label a)"
proof -
  from assms obtain out where c: "compute f fs harness rc a = Inr out"
    and files: "files = [(a_label a @ ''.txt'', TextFile (o_table out)),
                  (a_label a @ ''.json'', JsonFile (o_payload out))]"
    by (auto simp: main_def split: sum.splits)
  note d = compute_labels(1) [OF c]
  from c obtain commit bmeta bench where
    p: "o_payload out = summary_payload a rc commit bmeta bench (o_systems out)"
    by (auto simp: compute_def Let_def bindE_eq_Inr)
  from c files d load_baseline_payload [OF d, of fs' path a rc commit bmeta bench] p
  show ?thesis by simp
qed

text \<open>
  The payload of the run of two trials, written and read back.
\<close>

theorem payload_round_trip_witness:
  "\<exists>(out :: outcome) meta.
       main demo_formats demo_fs demo_harness_2 demo_context
          \<lparr>a_label = ''demo'', a_runs = 2, a_baseline = ''perf/before.json''\<rparr>
         = ([(''demo.txt'', TextFile (o_table out)), (''demo.json'', JsonFile (o_payload out))], Inr 0)
     \<and> load_baseline [''perf/demo.json'' \<mapsto> Some (o_payload out)] ''perf/demo.json''
          = Inr (label_means (o_systems out), meta)
     \<and> label_means (o_systems out) (JStr ''sprite_fast'') = Some (JNum (13 / 2))
     \<and> label_means (o_systems out) (JStr ''sprite_general'') = Some (JNum 7)
     \<and> label_means (o_systems out) (JStr ''sprite_slow'') = None"
proof -
  let ?a = "\<lparr>a_label = ''demo'', a_runs = 2, a_baseline = ''perf/before.json''\<rparr>"
  from demo_2_eval obtain out where
    c: "compute demo_formats demo_fs demo_harness_2 demo_context ?a = Inr out"
    and n: "map s_label (o_systems out) = [''sprite_fast'', ''sprite_general'']"
    and m: "map s_mean_ms (o_systems out) = [13 / 2, 7]"
    by (auto split: sum.splits)
  from n obtain s1 s2 where sys: "o_systems out = [s1, s2]" by auto
  have lm: "label_means (o_systems out) (JStr ''sprite_fast'') = Some (JNum (13 / 2))
    \<and> label_means (o_systems out) (JStr ''sprite_general'') = Some (JNum 7)
    \<and> label_means (o_systems out) (JStr ''sprite_slow'') = None"
    using n m by (simp add: sys label_means_def)
  have mn: "main demo_formats demo_fs demo_harness_2 demo_context ?a =
      ([(a_label ?a @ ''.txt'', TextFile (o_table out)),
        (a_label ?a @ ''.json'', JsonFile (o_payload out))], Inr 0)"
    by (simp add: main_def c)
  from payload_round_trip [OF mn, of Map.empty "''perf/demo.json''"] c
  obtain meta where lb: "load_baseline [''perf/demo.json'' \<mapsto> Some (o_payload out)] ''perf/demo.json''
          = Inr (label_means (o_systems out), meta)"
    by auto
  from mn have mn': "main demo_formats demo_fs demo_harness_2 demo_context ?a
         = ([(''demo.txt'', TextFile (o_table out)), (''demo.json'', JsonFile (o_payload out))], Inr 0)"
    by simp
  from mn' lb lm show ?thesis by blast
qed

text \<open>
  Claim C4. When the harness exits with a non-zero status in some trial \<open>i\<close> of the run, \<^verbatim>\<open>main\<close>
  raises and has written neither artefact, and it returns no outcome (no summaries of the
  earlier trials). What it does is decided by the trials up to \<open>i\<close>: the later ones are never
  run. When the baseline (if any) loads and the trials before \<open>i\<close> complete, the exception is
  the \<^verbatim>\<open>CalledProcessError\<close> of trial \<open>i\<close>.
\<close>

theorem nonzero_exit_aborts:
  assumes "1 \<le> i" and "i \<le> a_runs a" and "t_returncode (harness i) \<noteq> 0"
  shows "fst (main f fs harness rc a) = []
       \<and> (\<exists>e. snd (main f fs harness rc a) = Inl e)
       \<and> (\<forall>out. compute f fs harness rc a \<noteq> Inr out)
       \<and> (\<forall>harness'. (\<forall>j. 1 \<le> j \<and> j \<le> i \<longrightarrow> harness' j = harness j) \<longrightarrow>
             main f fs harness' rc a = main f fs harness rc a)
       \<and> ((a_baseline a = [] \<or> (\<exists>b. load_baseline fs (a_baseline a) = Inr b))
            \<and> (\<exists>st. run_trials harness [1..i - 1] ([], None) = Inr st) \<longrightarrow>
             main f fs harness rc a = ([], Inl (CalledProcessError (t_returncode (harness i)))))"
proof -
  note ca = compute_abort [where h = harness and i = i and f = f and fs = fs and rc = rc, OF assms]
  have no: "compute f fs harness rc a \<noteq> Inr out" for out
    unfolding ca by (auto simp: bindE_eq_Inr)
  then have m: "fst (main f fs harness rc a) = [] \<and> (\<exists>e. snd (main f fs harness rc a) = Inl e)"
    by (cases "compute f fs harness rc a") (auto simp: main_def)
  have same: "main f fs harness' rc a = main f fs harness rc a"
    if agree: "\<forall>j. 1 \<le> j \<and> j \<le> i \<longrightarrow> harness' j = harness j" for harness'
  proof -
    from agree assms(1) have hi: "harness' i = harness i" by simp
    with assms(3) have "t_returncode (harness' i) \<noteq> 0" by simp
    note ca' = compute_abort [where h = harness' and i = i and f = f and fs = fs and rc = rc, OF assms(1,2) this]
    from agree have "\<forall>j \<in> set [1..i - 1]. harness' j = harness j" by auto
    from run_trials_cong [OF this]
    have "run_trials harness' [1..i - 1] ([], None) = run_trials harness [1..i - 1] ([], None)" .
    with ca ca' hi have "compute f fs harness' rc a = compute f fs harness rc a" by simp
    then show ?thesis by (simp add: main_def)
  qed
  have which: "main f fs harness rc a = ([], Inl (CalledProcessError (t_returncode (harness i))))"
    if "a_baseline a = [] \<or> (\<exists>b. load_baseline fs (a_baseline a) = Inr b)"
      and "\<exists>st. run_trials harness [1..i - 1] ([], None) = Inr st"
    using that unfolding main_def ca by (auto simp: bindE_def)
  from no m same which show ?thesis by blast
qed

text \<open>
  Trial 2 of 3 exits with status 101.
\<close>

theorem nonzero_exit_aborts_witness:
  "(1::int) \<le> 2 \<and> 2 \<le> a_runs \<lparr>a_label = ''demo'', a_runs = 3, a_baseline = []\<rparr>
   \<and> t_returncode (demo_harness_fail 2) \<noteq> 0
   \<and> main demo_formats Map.empty demo_harness_fail demo_context
        \<lparr>a_label = ''demo'', a_runs = 3, a_baseline = []\<rparr> = ([], Inl (CalledProcessError 101))"
proof -
  let ?a = "\<lparr>a_label = ''demo'', a_runs = 3, a_baseline = []\<rparr>"
  have 1: "(1::int) \<le> 2" and 2: "2 \<le> a_runs ?a" and 3: "t_returncode (demo_harness_fail 2) \<noteq> 0"
    by (simp_all add: demo_harness_fail_def demo_trial_def)
  have 4: "a_baseline ?a = [] \<or> (\<exists>b. load_baseline Map.empty (a_baseline ?a) = Inr b)" by simp
  have 5: "\<exists>st. run_trials demo_harness_fail [1..2 - 1] ([], None) = Inr st"
    by (simp add: upto_1_1 demo_harness_fail_def demo_trial_def demo_entry_def run_once_def
        read_report_def observe_entry_def setdefault_def append_run_def bindE_def Let_def)
  from nonzero_exit_aborts [where harness = demo_harness_fail and i = 2 and f = demo_formats
      and fs = Map.empty and rc = demo_context, OF 1 2 3] 4 5
  have "main demo_formats Map.empty demo_harness_fail demo_context ?a
      = ([], Inl (CalledProcessError (t_returncode (demo_harness_fail 2))))"
    by blast
  with 1 2 3 show ?thesis by (simp add: demo_harness_fail_def demo_trial_def)
qed

text \<open>
  Claim C9 at a run of two trials in which the label \<open>sprite_general\<close> is reported by the first
  trial only. Its row has one cell fewer than the header, and the cells are padded by position:
  its mean stands in the column \<open>run2\<close>, its deviation in the column \<open>mean\<close>, its budget in the
  column \<open>stddev\<close>, and the column \<open>budget\<close> is empty. The claim has the columns in the order
  label, one per trial, mean, deviation, budget also for such a label.
\<close>

theorem ragged_rows_misaligned:
  "case compute demo_formats Map.empty demo_harness_ragged demo_context
          \<lparr>a_label = ''demo'', a_runs = 2, a_baseline = []\<rparr> of
     Inl _ \<Rightarrow> False
   | Inr out \<Rightarrow>
       o_rows out =
         [[''system'', ''run1'', ''run2'', ''mean'', ''stddev'', ''budget''],
          [''sprite_fast'', ''6.500'', ''6.500'', ''6.500'', ''0.000'', ''0.300''],
          [''sprite_general'', ''7.000'', ''7.000'', ''0.000'', ''0.300'']]
     \<and> o_table out =
         ''        system   run1   run2   mean  stddev  budget'' @ [CHR 0x0A] @
         ''   sprite_fast  6.500  6.500  6.500   0.000   0.300'' @ [CHR 0x0A] @
         ''sprite_general  7.000  7.000  0.000   0.300''
     \<and> map s_runs (o_systems out) = [[13 / 2, 13 / 2], [7]]
     \<and> map s_mean_ms (o_systems out) = [13 / 2, 7]"
  by (simp add: run_defs upto_1_2 demo_harness_ragged_def demo_formats_def fixed3_values
      py_str_int_def padded_def rjust_def)

text \<open>
  Claim C3. When the parser returns, each single-shot key (\<open>per_step_stats\<close>, \<open>sprite_totals\<close>,
  \<open>sprite_bucket_avg\<close>) is absent if its pattern occurs nowhere and otherwise holds the one
  record converted from the first occurrence, whatever occurs later; \<open>top_steps\<close> and
  \<open>top_step_mix\<close> hold one record per occurrence of their pattern, the i-th record converted
  from the i-th occurrence. Text in which no pattern occurs yields the empty result and no
  error, and text without an opening bracket in front of the output changes nothing.
\<close>

theorem extractor_records:
  "(parse_profile_output stdout = Inr d \<longrightarrow>
      (case occurrences STEP_STATS_RE stdout of
         [] \<Rightarrow> per_step_stats d = None
       | g # later \<Rightarrow> (\<exists>m. step_stats_of g = Inr m \<and> per_step_stats d = Some m))
    \<and> (case occurrences SPRITE_TOTALS_RE stdout of
         [] \<Rightarrow> sprite_totals d = None
       | g # later \<Rightarrow> (\<exists>m. sprite_totals_of g = Inr m \<and> sprite_totals d = Some m))
    \<and> (case occurrences SPRITE_BUCKET_AVG_RE stdout of
         [] \<Rightarrow> sprite_bucket_avg d = None
       | g # later \<Rightarrow> (\<exists>m. sprite_bucket_avg_of g = Inr m \<and> sprite_bucket_avg d = Some m))
    \<and> list_all2 (\<lambda>g m. top_step_of g = Inr m) (occurrences TOP_STEP_RE stdout) (top_steps d)
    \<and> list_all2 (\<lambda>g m. top_mix_of g = Inr m) (occurrences TOP_MIX_RE stdout) (top_step_mix d))
   \<and> (occurrences STEP_STATS_RE stdout = [] \<and> occurrences SPRITE_TOTALS_RE stdout = []
        \<and> occurrences SPRITE_BUCKET_AVG_RE stdout = [] \<and> occurrences TOP_STEP_RE stdout = []
        \<and> occurrences TOP_MIX_RE stdout = [] \<longrightarrow>
       parse_profile_output stdout =
         Inr \<lparr>per_step_stats = None, sprite_totals = None, sprite_bucket_avg = None,
              top_steps = [], top_step_mix = []\<rparr>)
   \<and> (CHR ''['' \<notin> set junk \<longrightarrow>
        parse_profile_output (junk @ stdout) = parse_profile_output stdout)"
proof (intro conjI impI)
  assume p: "parse_profile_output stdout = Inr d"
  then obtain stats totals avg steps mix where
    1: "single_shot STEP_STATS_RE step_stats_of stdout = Inr stats"
    and 2: "single_shot SPRITE_TOTALS_RE sprite_totals_of stdout = Inr totals"
    and 3: "single_shot SPRITE_BUCKET_AVG_RE sprite_bucket_avg_of stdout = Inr avg"
    and 4: "each_match top_step_of (occurrences TOP_STEP_RE stdout) = Inr steps"
    and 5: "each_match top_mix_of (occurrences TOP_MIX_RE stdout) = Inr mix"
    and d: "d = \<lparr>per_step_stats = stats, sprite_totals = totals, sprite_bucket_avg = avg,
          top_steps = steps, top_step_mix = mix\<rparr>"
    unfolding parse_occurrences by (auto simp: bindE_eq_Inr)
  from 1 show "case occurrences STEP_STATS_RE stdout of
         [] \<Rightarrow> per_step_stats d = None
       | g # later \<Rightarrow> (\<exists>m. step_stats_of g = Inr m \<and> per_step_stats d = Some m)"
    by (auto simp: d single_shot_occurrences bindE_eq_Inr split: list.splits)
  from 2 show "case occurrences SPRITE_TOTALS_RE stdout of
         [] \<Rightarrow> sprite_totals d = None
       | g # later \<Rightarrow> (\<exists>m. sprite_totals_of g = Inr m \<and> sprite_totals d = Some m)"
    by (auto simp: d single_shot_occurrences bindE_eq_Inr split: list.splits)
  from 3 show "case occurrences SPRITE_BUCKET_AVG_RE stdout of
         [] \<Rightarrow> sprite_bucket_avg d = None
       | g # later \<Rightarrow> (\<exists>m. sprite_bucket_avg_of g = Inr m \<and> sprite_bucket_avg d = Some m)"
    by (auto simp: d single_shot_occurrences bindE_eq_Inr split: list.splits)
  from each_match_all2 [OF 4]
  show "list_all2 (\<lambda>g m. top_step_of g = Inr m) (occurrences TOP_STEP_RE stdout) (top_steps d)"
    by (simp add: d)
  from each_match_all2 [OF 5]
  show "list_all2 (\<lambda>g m. top_mix_of g = Inr m) (occurrences TOP_MIX_RE stdout) (top_step_mix d)"
    by (simp add: d)
next
  assume "occurrences STEP_STATS_RE stdout = [] \<and> occurrences SPRITE_TOTALS_RE stdout = []
        \<and> occurrences SPRITE_BUCKET_AVG_RE stdout = [] \<and> occurrences TOP_STEP_RE stdout = []
        \<and> occurrences TOP_MIX_RE stdout = []"
  then show "parse_profile_output stdout =
         Inr \<lparr>per_step_stats = None, sprite_totals = None, sprite_bucket_avg = None,
              top_steps = [], top_step_mix = []\<rparr>"
    by (simp add: parse_occurrences single_shot_occurrences bindE_def)
next
  assume "CHR ''['' \<notin> set junk"
  then show "parse_profile_output (junk @ stdout) = parse_profile_output stdout"
    by (simp add: parse_occurrences single_shot_occurrences occurrences_skip anchored_patterns)
qed

text \<open>
  The example output: two occurrences of the per-step statistics, of which the first is kept;
  two top steps and one mix, in source order.
\<close>

theorem extractor_records_witness:
  "\<exists>d. parse_profile_output demo_stdout = Inr d
     \<and> length (occurrences STEP_STATS_RE demo_stdout) = 2
     \<and> per_step_stats d =
          Some [(''mean'', PyFloat (1 / 4)), (''p95'', PyFloat (1 / 2)), (''max'', PyFloat (7 / 4)),
                (''steady'', PyFloat (1 / 5)), (''steady_samples'', PyInt 230),
                (''spike'', PyFloat (3 / 2)), (''spike_samples'', PyInt 10)]
     \<and> sprite_totals d = None
     \<and> top_steps d = [[(''step'', PyInt 17), (''ms'', PyFloat (7 / 4))],
                       [(''step'', PyInt 3), (''ms'', PyFloat (3 / 2))]]
     \<and> list_all2 (\<lambda>g m. top_step_of g = Inr m) (occurrences TOP_STEP_RE demo_stdout) (top_steps d)
     \<and> list_all2 (\<lambda>g m. top_mix_of g = Inr m) (occurrences TOP_MIX_RE demo_stdout) (top_step_mix d)
     \<and> length (top_step_mix d) = 1"
proof -
  from extractor_records [of demo_stdout _ "[]"] demo_parse
  have "list_all2 (\<lambda>g m. top_step_of g = Inr m) (occurrences TOP_STEP_RE demo_stdout)
          [[(''step'', PyInt 17), (''ms'', PyFloat (7 / 4))],
           [(''step'', PyInt 3), (''ms'', PyFloat (3 / 2))]]
      \<and> list_all2 (\<lambda>g m. top_mix_of g = Inr m) (occurrences TOP_MIX_RE demo_stdout)
          [[(''step'', PyInt 3), (''ms'', PyFloat (3 / 2)), (''fast'', PyInt 1),
              (''event'', PyInt 2), (''plain'', PyInt 3), (''bsearch'', PyInt 4),
              (''fast_bucket'', PyInt 5), (''general_bucket'', PyInt 6), (''applies'', PyInt 7),
              (''adv'', PyInt 8), (''zero'', PyInt 9), (''skipped'', PyInt 10),
              (''loop_resume'', PyInt 11), (''zero_duration'', PyInt 12),
              (''fast_path'', PyInt 13), (''slow_path'', PyInt 14), (''adv_ns'', PyInt 15),
              (''sample_ns'', PyInt 16), (''apply_ns'', PyInt 17)]]"
    by fastforce
  then show ?thesis
    by (simp add: demo_parse demo_occurrences(1))
qed

text \<open>
  Claim C6. When a match that the parser converts (the first occurrence of a single-shot
  pattern, any occurrence of a repeating one) has a field converted with \<^verbatim>\<open>float\<close> whose text is
  not a float, the parser raises \<^verbatim>\<open>ValueError\<close> (the specification's \<open>MalformedMetricError\<close>) and
  returns no record at all; and it raises in no other case.
\<close>

theorem malformed_field_raises:
  "(malformed stdout \<longrightarrow> parse_profile_output stdout = Inl ValueError)
   \<and> (\<not> malformed stdout \<longrightarrow> (\<exists>d. parse_profile_output stdout = Inr d))"
proof -
  have a: "(list_ex (bad_float_in (\<lambda>k. \<not> contains ''samples'' k)) (take 1 (occurrences STEP_STATS_RE stdout))
        \<and> single_shot STEP_STATS_RE step_stats_of stdout = Inl ValueError)
      \<or> (\<not> list_ex (bad_float_in (\<lambda>k. \<not> contains ''samples'' k)) (take 1 (occurrences STEP_STATS_RE stdout))
        \<and> (\<exists>x. single_shot STEP_STATS_RE step_stats_of stdout = Inr x))"
    by (rule single_shot_cases) (simp add: step_stats_cases)
  have b: "\<exists>x. single_shot SPRITE_TOTALS_RE sprite_totals_of stdout = Inr x"
    by (rule single_shot_ok) (simp add: sprite_totals_ok)
  have c: "(list_ex (bad_float_in (\<lambda>k. True)) (take 1 (occurrences SPRITE_BUCKET_AVG_RE stdout))
        \<and> single_shot SPRITE_BUCKET_AVG_RE sprite_bucket_avg_of stdout = Inl ValueError)
      \<or> (\<not> list_ex (bad_float_in (\<lambda>k. True)) (take 1 (occurrences SPRITE_BUCKET_AVG_RE stdout))
        \<and> (\<exists>x. single_shot SPRITE_BUCKET_AVG_RE sprite_bucket_avg_of stdout = Inr x))"
    by (rule single_shot_cases) (simp add: sprite_bucket_avg_cases)
  have d: "(list_ex (bad_float_in (\<lambda>k. k = ''value'')) (occurrences TOP_STEP_RE stdout)
        \<and> each_match top_step_of (occurrences TOP_STEP_RE stdout) = Inl ValueError)
      \<or> (\<not> list_ex (bad_float_in (\<lambda>k. k = ''value'')) (occurrences TOP_STEP_RE stdout)
        \<and> (\<exists>ms. each_match top_step_of (occurrences TOP_STEP_RE stdout) = Inr ms))"
    by (rule each_match_cases) (simp add: top_step_cases)
  have e: "(list_ex (bad_float_in (\<lambda>k. k = ''value'')) (occurrences TOP_MIX_RE stdout)
        \<and> each_match top_mix_of (occurrences TOP_MIX_RE stdout) = Inl ValueError)
      \<or> (\<not> list_ex (bad_float_in (\<lambda>k. k = ''value'')) (occurrences TOP_MIX_RE stdout)
        \<and> (\<exists>ms. each_match top_mix_of (occurrences TOP_MIX_RE stdout) = Inr ms))"
    by (rule each_match_cases) (simp add: top_mix_cases)
  from a b c d e show ?thesis
    unfolding malformed_def parse_occurrences
    by (elim disjE conjE exE) (simp_all add: bindE_def)
qed

text \<open>
  The top-step line with the value \<open>1.2.3\<close>.
\<close>

theorem malformed_field_raises_witness:
  "malformed demo_stdout_bad \<and> parse_profile_output demo_stdout_bad = Inl ValueError"
proof -
  have m: "malformed demo_stdout_bad"
    by (simp add: malformed_def demo_bad_occurrences bad_float_in_def valid_float_def is_digit_def)
  with malformed_field_raises [of demo_stdout_bad] show ?thesis by blast
qed

end
